theory Spec2Isabelle
  imports Main "HOL-Library.Word" "HOL-Library.Monad_Syntax"
begin

section \<open>Ethos-N API translation layer (ethosn\_api.cc)\<close>

text \<open>
  A shallow embedding of \<^verbatim>\<open>src/relay/backend/contrib/ethosn/ethosn_api.cc\<close>.
  Every function that writes through a pointer takes the pointee's old value and returns
  the new one beside the error. A function returns \<open>None\<close> where the C++ aborts or
  has no defined result: a failed \<^verbatim>\<open>Downcast\<close>, an index outside a TVM
  \<^verbatim>\<open>Array\<close>, a null pointer read through \<^verbatim>\<open>as<T>()\<close>, an index
  outside a \<^verbatim>\<open>std::array\<close>, a read past the end of a buffer, a division by
  zero, an overflow of signed arithmetic. A local that the C++ declares without an
  initialiser has indeterminate first contents: they are an argument of the model.
\<close>

subsection \<open>Machine integers and the text of messages\<close>

type_synonym int64 = "64 word"
type_synonym int32 = "32 word"
type_synonym uint32 = "32 word"

text \<open>Decimal text of a number, as \<^verbatim>\<open>operator<<\<close> of a stream writes it.\<close>

fun show_nat :: "nat \<Rightarrow> string" where
  "show_nat n =
     (if n < 10 then [''0123456789'' ! n]
      else show_nat (n div 10) @ [''0123456789'' ! (n mod 10)])"

declare show_nat.simps [simp del]

definition show_int :: "int \<Rightarrow> string" where
  "show_int i = (if i < 0 then ''-'' @ show_nat (nat (- i)) else show_nat (nat i))"

text \<open>\<^verbatim>\<open>std::numeric_limits<uint32_t>::max()\<close>\<close>

definition uint32_max :: int where
  "uint32_max = 4294967295"

subsection \<open>The error accumulator\<close>

text \<open>
  Modelled from the spec: the class \<^verbatim>\<open>EthosnError\<close> and the stream
  \<^verbatim>\<open>ErrStrm\<close> are declared in \<^verbatim>\<open>ethosn_api.h\<close>, which is not among the
  sources. The spec (4.1): an error is an ordered sequence of messages, built from zero
  messages or from one message; the combine operation concatenates the operands' sequences
  in call order; the boolean predicate is "has at least one message".
\<close>

datatype EthosnError = EthosnError (msgs: "string list")

text \<open>Modelled from the spec: construction from zero messages (success).\<close>

definition no_error :: EthosnError where
  "no_error = EthosnError []"

text \<open>Modelled from the spec: construction from one message (failure).\<close>

definition error_msg :: "string \<Rightarrow> EthosnError" where
  "error_msg m = EthosnError [m]"

text \<open>Modelled from the spec: the combine operation, \<^verbatim>\<open>operator+=\<close> in the source.\<close>

definition err_add :: "EthosnError \<Rightarrow> EthosnError \<Rightarrow> EthosnError" where
  "err_add a b = EthosnError (msgs a @ msgs b)"

text \<open>Modelled from the spec: the boolean predicate, \<^verbatim>\<open>operator bool\<close> in the source.\<close>

definition err_bool :: "EthosnError \<Rightarrow> bool" where
  "err_bool e = (msgs e \<noteq> [])"

subsection \<open>IR integer expressions and the fixed-length array extractor\<close>

text \<open>
  A \<^verbatim>\<open>PrimExpr\<close> of the IR: an integer immediate holding an \<^verbatim>\<open>int64_t\<close>, or
  any other expression (a variable, a sum, \<^verbatim>\<open>Any\<close>), for which
  \<^verbatim>\<open>as<IntImmNode>()\<close> is null.
\<close>

datatype PrimExpr = IntImm int64 | NonImm string

text \<open>
  \<^verbatim>\<open>AsArray<IndexExpr, uint32_t>\<close>. The \<^verbatim>\<open>std::array<uint32_t, 4>\<close> is a list
  (of length 4 at every call). The loop runs \<open>i\<close> from 0 while
  \<open>i < min (arr.size()) 4\<close>; the comparison with the maximum is made in
  \<^verbatim>\<open>int64_t\<close>, so a negative value passes and the cast wraps it.
\<close>

function AsArray_loop ::
  "PrimExpr list \<Rightarrow> nat \<Rightarrow> uint32 list \<Rightarrow> (EthosnError \<times> uint32 list) option" where
  "AsArray_loop arr i v =
     (if i < min (length arr) 4 then
        (case arr ! i of
           NonImm _ \<Rightarrow> None
         | IntImm val \<Rightarrow>
             if sint val > uint32_max then
               Some (error_msg (''axis size='' @ show_int (sint val)
                       @ '', axis size must be <= '' @ show_int uint32_max), v)
             else AsArray_loop arr (Suc i) (v[i := ucast val]))
      else Some (no_error, v))"
  by pat_completeness auto
termination
  by (relation "measure (\<lambda>(arr, i, v). min (length arr) 4 - i)") auto

declare AsArray_loop.simps [simp del]

definition AsArray :: "PrimExpr list \<Rightarrow> uint32 list \<Rightarrow> (EthosnError \<times> uint32 list) option" where
  "AsArray arr v =
     (if length arr > 4 then
        Some (error_msg (''dimensions='' @ show_nat (length arr)
                @ '', dimensions must be <= 4''), v)
      else AsArray_loop arr 0 v)"

subsection \<open>Descriptor types of the support library\<close>

text \<open>
  Modelled from the spec: the descriptor types \<^verbatim>\<open>sl::Padding\<close>,
  \<^verbatim>\<open>sl::Stride\<close>, \<^verbatim>\<open>sl::DataFormat\<close>, \<^verbatim>\<open>sl::DataType\<close>,
  \<^verbatim>\<open>sl::QuantizationInfo\<close> and \<^verbatim>\<open>sl::TensorInfo\<close> are declared in the
  support library's \<^verbatim>\<open>Support.hpp\<close>, which is not among the sources. The spec (3):
  a padding is four unsigned margins (top, bottom, left, right); a stride is two unsigned
  values; a tensor descriptor is a shape of four unsigned dimensions, an element type, a
  layout tag and a quantization info. The constructors take the fields in this order.
\<close>

record Padding =
  m_Top :: uint32
  m_Bottom :: uint32
  m_Left :: uint32
  m_Right :: uint32

definition mk_Padding :: "uint32 \<Rightarrow> uint32 \<Rightarrow> uint32 \<Rightarrow> uint32 \<Rightarrow> Padding" where
  "mk_Padding t b l r = \<lparr>m_Top = t, m_Bottom = b, m_Left = l, m_Right = r\<rparr>"

record Stride =
  m_X :: uint32
  m_Y :: uint32

definition mk_Stride :: "uint32 \<Rightarrow> uint32 \<Rightarrow> Stride" where
  "mk_Stride x y = \<lparr>m_X = x, m_Y = y\<rparr>"

datatype DataFormat = NCHW | NHWC | HWIO | HWIM

datatype sl_DataType = UINT8_QUANTIZED | INT32_QUANTIZED

type_synonym TensorShape = "uint32 list"

subsection \<open>Shape and format converters\<close>

text \<open>
  \<^verbatim>\<open>Tvm2Npu(const Array<IndexExpr>& padding, sl::Padding* npu_padding)\<close>. The local
  \<^verbatim>\<open>dim\<close> is declared without an initialiser: its first contents are the
  argument \<open>dim\<close>.
\<close>

definition Tvm2Npu_Padding ::
  "uint32 list \<Rightarrow> PrimExpr list \<Rightarrow> Padding \<Rightarrow> (EthosnError \<times> Padding) option" where
  "Tvm2Npu_Padding dim padding npu_padding =
     (case AsArray padding dim of
        None \<Rightarrow> None
      | Some (err, dim') \<Rightarrow>
          if err_bool err then Some (err, npu_padding)
          else if length padding = 1 then
            Some (no_error, mk_Padding (dim' ! 0) (dim' ! 0) (dim' ! 0) (dim' ! 0))
          else if length padding = 2 then
            Some (no_error, mk_Padding (dim' ! 0) (dim' ! 0) (dim' ! 1) (dim' ! 1))
          else if length padding = 4 then
            Some (no_error, mk_Padding (dim' ! 0) (dim' ! 2) (dim' ! 1) (dim' ! 3))
          else
            Some (error_msg (''padding tuple size='' @ show_nat (length padding)
                    @ '', padding tuple size must be {1, 2, 4}''), npu_padding))"

text \<open>\<^verbatim>\<open>Tvm2Npu(const Array<IndexExpr>& strides, sl::Stride* npu_stride)\<close>\<close>

definition Tvm2Npu_Stride ::
  "uint32 list \<Rightarrow> PrimExpr list \<Rightarrow> Stride \<Rightarrow> (EthosnError \<times> Stride) option" where
  "Tvm2Npu_Stride dim strides npu_stride =
     (if length strides \<noteq> 2 then
        Some (error_msg (''stride size='' @ show_nat (length strides)
                @ '', stride size must = 2''), npu_stride)
      else
        (case AsArray strides dim of
           None \<Rightarrow> None
         | Some (err, dim') \<Rightarrow>
             if err_bool err then Some (err, npu_stride)
             else Some (no_error, mk_Stride (dim' ! 1) (dim' ! 0))))"

text \<open>\<^verbatim>\<open>Tvm2Npu(const std::string& dformat, sl::DataFormat* data_format)\<close>\<close>

definition Tvm2Npu_DataFormat :: "string \<Rightarrow> DataFormat \<Rightarrow> EthosnError \<times> DataFormat" where
  "Tvm2Npu_DataFormat dformat data_format =
     (if dformat = ''NCHW'' then (no_error, NCHW)
      else if dformat = ''NHWC'' then (no_error, NHWC)
      else if dformat = ''HWIO'' then (no_error, HWIO)
      else if dformat = ''HWIM'' then (no_error, HWIM)
      else (error_msg (''format='' @ dformat
              @ '', format must be {NCHW, NHWC, HWIO, HWIM}''), data_format))"

text \<open>
  \<^verbatim>\<open>Tvm2Npu(const Array<IndexExpr>& shape, sl::TensorShape* npu_shape)\<close>.
  \<^verbatim>\<open>front()\<close> is slot 0 of the array of four.
\<close>

definition Tvm2Npu_TensorShape ::
  "PrimExpr list \<Rightarrow> TensorShape \<Rightarrow> (EthosnError \<times> TensorShape) option" where
  "Tvm2Npu_TensorShape shape npu_shape =
     (case AsArray shape npu_shape of
        None \<Rightarrow> None
      | Some (err, npu_shape') \<Rightarrow>
          if npu_shape' ! 0 \<noteq> 1 then
            Some (err_add err (error_msg (''batch size='' @ show_nat (unat (npu_shape' ! 0))
                    @ '', batch size must = 1'')), npu_shape')
          else Some (err, npu_shape'))"

text \<open>
  \<^verbatim>\<open>Tvm2Npu(const Array<Array<IndexExpr>>& padding, sl::Padding* npu_padding)\<close>.
  \<^verbatim>\<open>padding[1][0]\<close> and the three reads after it go through the bounds check of
  \<^verbatim>\<open>Array::operator[]\<close>.
\<close>

definition Tvm2Npu_Padding_nested ::
  "uint32 list \<Rightarrow> PrimExpr list list \<Rightarrow> Padding \<Rightarrow> (EthosnError \<times> Padding) option" where
  "Tvm2Npu_Padding_nested dim padding npu_padding =
     (if length padding \<noteq> 4 then
        Some (error_msg (''padding tuple size='' @ show_nat (length padding)
                @ '', padding tuple size must = 4''), npu_padding)
      else if length (padding ! 1) < 2 \<or> length (padding ! 2) < 2 then None
      else
        (let reduced_padding =
               [padding ! 1 ! 0, padding ! 1 ! 1, padding ! 2 ! 0, padding ! 2 ! 1]
         in case AsArray reduced_padding dim of
              None \<Rightarrow> None
            | Some (err, dim') \<Rightarrow>
                if err_bool err then Some (err, npu_padding)
                else Some (no_error, mk_Padding (dim' ! 0) (dim' ! 1) (dim' ! 2) (dim' ! 3))))"

subsection \<open>The IR: data types, types, attributes and expressions\<close>

text \<open>
  Modelled from the spec: \<^verbatim>\<open>tvm::DataType\<close> is declared in the runtime's
  headers, which are not among the sources. An element data type is a type code, a bit
  width and a lane count; it is scalar (non-vector) when it has one lane.
\<close>

datatype DLDataTypeCode = kDLInt | kDLUInt | kDLFloat | kDLOpaqueHandle | kDLBfloat

record tvm_DataType =
  code :: DLDataTypeCode
  bits :: nat
  lanes :: nat

definition is_scalar :: "tvm_DataType \<Rightarrow> bool" where
  "is_scalar t = (lanes t = 1)"

definition is_uint :: "tvm_DataType \<Rightarrow> bool" where
  "is_uint t = (code t = kDLUInt)"

definition is_int :: "tvm_DataType \<Rightarrow> bool" where
  "is_int t = (code t = kDLInt)"

text \<open>
  The checked type of an expression: a tensor type (shape and element type), a tuple
  type, or any other type, for which \<^verbatim>\<open>as<TensorTypeNode>()\<close> and
  \<^verbatim>\<open>as<TupleTypeNode>()\<close> are null.
\<close>

datatype Type = TensorType "PrimExpr list" tvm_DataType | TupleType "Type list" | OtherType

text \<open>
  The attributes the translators read. \<^verbatim>\<open>indices_or_sections\<close> is an
  \<^verbatim>\<open>ObjectRef\<close>: an integer immediate, an array, or something else.
\<close>

datatype ObjectRef = Sections int64 | Indices "PrimExpr list" | OtherObject

record Conv2DAttrs =
  strides :: "PrimExpr list"
  padding :: "PrimExpr list"
  dilation :: "PrimExpr list"
  groups :: int32
  channels :: "PrimExpr option"

datatype Attrs =
    Conv2D Conv2DAttrs
  | PadAttrs "PrimExpr list list"
  | ConcatenateAttrs int32
  | SplitAttrs ObjectRef int32
  | OtherAttrs

text \<open>
  An \<^verbatim>\<open>NDArray\<close> is its buffer, a sequence of bytes. An expression is a
  constant, a call (operator name, arguments, attributes), a tuple or anything else; each
  carries its checked type.
\<close>

type_synonym NDArray = "8 word list"

datatype Expr =
    Constant NDArray Type
  | Call string "Expr list" Attrs Type
  | Tuple "Expr list" Type
  | Var string Type

fun checked_type :: "Expr \<Rightarrow> Type" where
  "checked_type (Constant _ t) = t"
| "checked_type (Call _ _ _ t) = t"
| "checked_type (Tuple _ t) = t"
| "checked_type (Var _ t) = t"

text \<open>\<^verbatim>\<open>Downcast<Call>\<close>: a check failure on any other node.\<close>

fun Downcast_Call :: "Expr \<Rightarrow> (string \<times> Expr list \<times> Attrs) option" where
  "Downcast_Call (Call op args attrs _) = Some (op, args, attrs)"
| "Downcast_Call _ = None"

text \<open>\<^verbatim>\<open>Array::operator[]\<close>: a check failure outside the array.\<close>

definition Array_at :: "'a list \<Rightarrow> nat \<Rightarrow> 'a option" where
  "Array_at xs i = (if i < length xs then Some (xs ! i) else None)"

text \<open>
  \<^verbatim>\<open>as<T>()\<close> followed by a read through the pointer: \<open>None\<close> where the
  pointer is null.
\<close>

fun as_Conv2DAttrs :: "Attrs \<Rightarrow> Conv2DAttrs option" where
  "as_Conv2DAttrs (Conv2D a) = Some a"
| "as_Conv2DAttrs _ = None"

fun as_PadAttrs :: "Attrs \<Rightarrow> PrimExpr list list option" where
  "as_PadAttrs (PadAttrs pad_width) = Some pad_width"
| "as_PadAttrs _ = None"

fun as_ConcatenateAttrs :: "Attrs \<Rightarrow> int32 option" where
  "as_ConcatenateAttrs (ConcatenateAttrs axis) = Some axis"
| "as_ConcatenateAttrs _ = None"

fun as_SplitAttrs :: "Attrs \<Rightarrow> (ObjectRef \<times> int32) option" where
  "as_SplitAttrs (SplitAttrs indices_or_sections axis) = Some (indices_or_sections, axis)"
| "as_SplitAttrs _ = None"

fun as_TensorType :: "Type \<Rightarrow> (PrimExpr list \<times> tvm_DataType) option" where
  "as_TensorType (TensorType shape dtype) = Some (shape, dtype)"
| "as_TensorType _ = None"

fun as_TupleType :: "Type \<Rightarrow> Type list option" where
  "as_TupleType (TupleType types) = Some types"
| "as_TupleType _ = None"

fun as_Tuple :: "Expr \<Rightarrow> Expr list option" where
  "as_Tuple (Tuple exprs _) = Some exprs"
| "as_Tuple _ = None"

fun as_Constant :: "Expr \<Rightarrow> NDArray option" where
  "as_Constant (Constant data _) = Some data"
| "as_Constant _ = None"

subsection \<open>What the translation unit takes from outside\<close>

text \<open>
  A \<^verbatim>\<open>float\<close> is its 32 bits. The functions below are defined outside the
  sources and are parameters of the model: the text \<^verbatim>\<open>operator<<\<close> writes for a
  data type and for an array of expressions, the product of two floats, and
  \<^verbatim>\<open>ExprDeepEqual\<close> applied to the channel count and the expression built
  from the \<^verbatim>\<open>int\<close> group count.
\<close>

type_synonym float32 = "32 word"

record externals =
  show_DataType :: "tvm_DataType \<Rightarrow> string"
  show_Array :: "PrimExpr list \<Rightarrow> string"
  float_mul :: "float32 \<Rightarrow> float32 \<Rightarrow> float32"
  ExprDeepEqual :: "PrimExpr \<Rightarrow> int32 \<Rightarrow> bool"

text \<open>
  Modelled from the spec: the remaining descriptor and parameter structures, declared in
  \<^verbatim>\<open>Support.hpp\<close> and \<^verbatim>\<open>ethosn_api.h\<close> (spec, section 3).
\<close>

record QuantizationInfo =
  m_ZeroPoint :: int32
  m_Scale :: float32

record TensorInfo =
  m_Dimensions :: TensorShape
  m_DataType :: sl_DataType
  m_DataFormat :: DataFormat
  m_QuantizationInfo :: QuantizationInfo

definition mk_TensorInfo ::
  "TensorShape \<Rightarrow> sl_DataType \<Rightarrow> DataFormat \<Rightarrow> QuantizationInfo \<Rightarrow> TensorInfo" where
  "mk_TensorInfo d t f q =
     \<lparr>m_Dimensions = d, m_DataType = t, m_DataFormat = f, m_QuantizationInfo = q\<rparr>"

record ConvolutionInfo =
  m_Padding :: Padding
  m_Stride :: Stride
  m_OutputQuantizationInfo :: QuantizationInfo

record ConcatenationInfo =
  concat_m_Axis :: uint32
  concat_m_OutputQuantizationInfo :: QuantizationInfo

record SplitInfo =
  split_m_Axis :: uint32
  m_Sizes :: "uint32 list"

record ConvolutionParams =
  conv_info :: ConvolutionInfo
  activation_info :: TensorInfo
  weights_info :: TensorInfo
  bias_info :: TensorInfo
  raw_weights :: NDArray
  raw_bias :: NDArray
  is_depthwise :: bool

record ConcatenateParams =
  input_infos :: "TensorInfo list"
  concat_info :: ConcatenationInfo

record SplitParams =
  input_info :: TensorInfo
  split_info :: SplitInfo

subsection \<open>The remaining converters and the constant extractor\<close>

text \<open>\<^verbatim>\<open>Tvm2Npu(const tvm::DataType& dtype, sl::DataType* data_type)\<close>\<close>

definition Tvm2Npu_DataType ::
  "externals \<Rightarrow> tvm_DataType \<Rightarrow> sl_DataType \<Rightarrow> EthosnError \<times> sl_DataType" where
  "Tvm2Npu_DataType ext dtype data_type =
     (if is_scalar dtype \<and> is_uint dtype \<and> bits dtype = 8 then (no_error, UINT8_QUANTIZED)
      else if is_scalar dtype \<and> is_int dtype \<and> bits dtype = 32 then (no_error, INT32_QUANTIZED)
      else (error_msg (''dtype='' @ [CHR 0x27] @ show_DataType ext dtype @ [CHR 0x27]
              @ '', dtype must be either uint8 or int32''), data_type))"

text \<open>\<^verbatim>\<open>Tvm2Npu(int32_t zero_point, float scale, sl::QuantizationInfo* npu_qinfo)\<close>\<close>

definition Tvm2Npu_QuantizationInfo ::
  "int32 \<Rightarrow> float32 \<Rightarrow> QuantizationInfo \<Rightarrow> EthosnError \<times> QuantizationInfo" where
  "Tvm2Npu_QuantizationInfo zero_point scale npu_qinfo =
     (no_error, \<lparr>m_ZeroPoint = zero_point, m_Scale = scale\<rparr>)"

text \<open>
  \<^verbatim>\<open>AsConstant<T>\<close> for the two four-byte types \<^verbatim>\<open>int\<close> and
  \<^verbatim>\<open>float\<close>: the first four bytes of the buffer, least significant first. A
  buffer of fewer than four bytes is read past its end.
\<close>

definition AsConstant :: "Expr \<Rightarrow> 32 word \<Rightarrow> (EthosnError \<times> 32 word) option" where
  "AsConstant expr out =
     (case expr of
        Constant data _ \<Rightarrow>
          (case data of
             b0 # b1 # b2 # b3 # _ \<Rightarrow>
               Some (no_error,
                     ucast b0 + 2 ^ 8 * ucast b1 + 2 ^ 16 * ucast b2 + 2 ^ 24 * ucast b3)
           | _ \<Rightarrow> None)
      | _ \<Rightarrow> Some (error_msg ''expected constant data'', out))"

subsection \<open>The convolution translator\<close>

text \<open>
  The first contents of the locals \<^verbatim>\<open>QnnConv2d\<close> declares without an
  initialiser, of the default-constructed \<^verbatim>\<open>sl::Padding\<close> and
  \<^verbatim>\<open>sl::Stride\<close> (their constructors are not among the sources), and of the
  local \<^verbatim>\<open>dim\<close> of the padding and stride converters.
\<close>

record QnnConv2d_locals =
  u_input_zero_point :: int32
  u_kernel_zero_point :: int32
  u_output_zero_point :: int32
  u_input_scale :: float32
  u_kernel_scale :: float32
  u_output_scale :: float32
  u_q_info :: QuantizationInfo
  u_padding :: Padding
  u_stride :: Stride
  u_dim :: "uint32 list"
  u_activation_tensor_shape :: TensorShape
  u_activation_data_type :: sl_DataType
  u_weights_tensor_shape :: TensorShape
  u_weights_data_type :: sl_DataType
  u_weights_data_format :: DataFormat

definition both_padding_msg :: string where
  "both_padding_msg =
     ''both op and attr padding exist, must be either op/attr only or no padding''"

text \<open>
  \<^verbatim>\<open>EthosnAPI::QnnConv2d\<close>. \<open>pad\<close> is \<open>Some\<close> of the call's operator
  name, arguments and attributes when \<^verbatim>\<open>pad.defined()\<close>.
\<close>

definition QnnConv2d ::
  "externals \<Rightarrow> QnnConv2d_locals \<Rightarrow> Expr \<Rightarrow> (EthosnError \<times> ConvolutionParams) option" where
  "QnnConv2d ext un expr = do {
     (requantize_op, requantize_args, requantize_attrs) \<leftarrow> Downcast_Call expr;
     requantize_arg0 \<leftarrow> Array_at requantize_args 0;
     (bias_add_op, bias_add_args, bias_add_attrs) \<leftarrow> Downcast_Call requantize_arg0;
     bias_add_arg0 \<leftarrow> Array_at bias_add_args 0;
     (conv_op, conv_args, conv_attrs) \<leftarrow> Downcast_Call bias_add_arg0;
     conv_arg0 \<leftarrow> Array_at conv_args 0;
     let pad = (case conv_arg0 of
                  Call op args attrs _ \<Rightarrow> if op = ''nn.pad'' then Some (op, args, attrs) else None
                | _ \<Rightarrow> None);
     conv_attr \<leftarrow> as_Conv2DAttrs conv_attrs;

     conv_arg2 \<leftarrow> Array_at conv_args 2;
     (err1, input_zero_point) \<leftarrow> AsConstant conv_arg2 (u_input_zero_point un);
     conv_arg3 \<leftarrow> Array_at conv_args 3;
     (err2, kernel_zero_point) \<leftarrow> AsConstant conv_arg3 (u_kernel_zero_point un);
     requantize_arg4 \<leftarrow> Array_at requantize_args 4;
     (err3, output_zero_point) \<leftarrow> AsConstant requantize_arg4 (u_output_zero_point un);
     conv_arg4 \<leftarrow> Array_at conv_args 4;
     (err4, input_scale) \<leftarrow> AsConstant conv_arg4 (u_input_scale un);
     conv_arg5 \<leftarrow> Array_at conv_args 5;
     (err5, kernel_scale) \<leftarrow> AsConstant conv_arg5 (u_kernel_scale un);
     requantize_arg3 \<leftarrow> Array_at requantize_args 3;
     (err6, output_scale) \<leftarrow> AsConstant requantize_arg3 (u_output_scale un);
     let err = err_add (err_add (err_add (err_add (err_add err1 err2) err3) err4) err5) err6;

     let (err7, data_q_info) =
           Tvm2Npu_QuantizationInfo input_zero_point input_scale (u_q_info un);
     let (err8, weights_q_info) =
           Tvm2Npu_QuantizationInfo kernel_zero_point kernel_scale (u_q_info un);
     let (err9, bias_q_info) =
           Tvm2Npu_QuantizationInfo 0
             (float_mul ext (m_Scale data_q_info) (m_Scale weights_q_info)) (u_q_info un);
     let (err10, output_q_info) =
           Tvm2Npu_QuantizationInfo output_zero_point output_scale (u_q_info un);
     let err = err_add (err_add (err_add (err_add err err7) err8) err9) err10;

     (err, npu_padding) \<leftarrow>
       (case pad of
          Some (pad_op, pad_args, pad_attrs) \<Rightarrow> do {
            (ignored, attr_padding) \<leftarrow>
              Tvm2Npu_Padding (u_dim un) (padding conv_attr) (u_padding un);
            let err = (if attr_padding \<noteq> mk_Padding 0 0 0 0
                       then err_add err (error_msg both_padding_msg) else err);
            pad_width \<leftarrow> as_PadAttrs pad_attrs;
            (err_pad, op_padding) \<leftarrow>
              Tvm2Npu_Padding_nested (u_dim un) pad_width attr_padding;
            Some (err_add err err_pad, op_padding)
          }
        | None \<Rightarrow> do {
            (err_pad, attr_padding) \<leftarrow>
              Tvm2Npu_Padding (u_dim un) (padding conv_attr) (u_padding un);
            Some (err_add err err_pad, attr_padding)
          });
     (err_stride, npu_stride) \<leftarrow> Tvm2Npu_Stride (u_dim un) (strides conv_attr) (u_stride un);
     let err = err_add err err_stride;
     (ignored, npu_dilation) \<leftarrow> AsArray (dilation conv_attr) [1, 1, 1, 1];
     let err = (if length (dilation conv_attr) \<noteq> 2 \<or> npu_dilation ! 0 \<noteq> 1
                   \<or> npu_dilation ! 1 \<noteq> 1
                then err_add err (error_msg (''dilation='' @ show_Array ext (dilation conv_attr)
                       @ '', dilation must = [1, 1]''))
                else err);
     let params_conv_info =
           \<lparr>m_Padding = npu_padding, m_Stride = npu_stride,
            m_OutputQuantizationInfo = output_q_info\<rparr>;

     (data_shape, data_dtype) \<leftarrow>
       (case pad of
          Some (pad_op, pad_args, pad_attrs) \<Rightarrow> do {
            pad_arg0 \<leftarrow> Array_at pad_args 0;
            as_TensorType (checked_type pad_arg0)
          }
        | None \<Rightarrow> as_TensorType (checked_type conv_arg0));
     (err_shape, activation_tensor_shape) \<leftarrow>
       Tvm2Npu_TensorShape data_shape (u_activation_tensor_shape un);
     let err = err_add err err_shape;
     let (err_dtype, activation_data_type) =
           Tvm2Npu_DataType ext data_dtype (u_activation_data_type un);
     let err = err_add err err_dtype;
     let params_activation_info =
           mk_TensorInfo activation_tensor_shape activation_data_type NHWC data_q_info;

     let params_is_depthwise =
           (case channels conv_attr of
              None \<Rightarrow> False
            | Some c \<Rightarrow> ExprDeepEqual ext c (groups conv_attr) \<and> groups conv_attr \<noteq> 1);

     conv_arg1 \<leftarrow> Array_at conv_args 1;
     (weights_shape, weights_dtype) \<leftarrow> as_TensorType (checked_type conv_arg1);
     (ignored, weights_tensor_shape) \<leftarrow>
       Tvm2Npu_TensorShape weights_shape (u_weights_tensor_shape un);
     let (err_dtype, weights_data_type) =
           Tvm2Npu_DataType ext weights_dtype (u_weights_data_type un);
     let err = err_add err err_dtype;
     let (err_format, weights_data_format) =
           Tvm2Npu_DataFormat (if params_is_depthwise then ''HWIM'' else ''HWIO'')
             (u_weights_data_format un);
     let err = err_add err err_format;
     let params_weights_info =
           mk_TensorInfo weights_tensor_shape weights_data_type weights_data_format weights_q_info;
     params_raw_weights \<leftarrow> as_Constant conv_arg1;

     let params_bias_info =
           mk_TensorInfo
             [1, 1, 1, if params_is_depthwise then weights_tensor_shape ! 2
                       else weights_tensor_shape ! 3]
             INT32_QUANTIZED NHWC bias_q_info;
     bias_add_arg1 \<leftarrow> Array_at bias_add_args 1;
     params_raw_bias \<leftarrow> as_Constant bias_add_arg1;

     Some (err,
       \<lparr>conv_info = params_conv_info, activation_info = params_activation_info,
        weights_info = params_weights_info, bias_info = params_bias_info,
        raw_weights = params_raw_weights, raw_bias = params_raw_bias,
        is_depthwise = params_is_depthwise\<rparr>)
   }"

subsection \<open>The concatenation translator\<close>

text \<open>
  The first contents of the locals \<^verbatim>\<open>Concatenate\<close> declares without an
  initialiser.
\<close>

record Concatenate_locals =
  u_output_s :: float32
  u_output_zp :: int32
  u_scale :: float32
  u_zp :: int32
  u_input_data_type :: sl_DataType

text \<open>
  The loop of \<^verbatim>\<open>Concatenate\<close> over \<^verbatim>\<open>input_scales\<close>, with the running
  \<^verbatim>\<open>index\<close>, error and \<^verbatim>\<open>params->input_infos\<close>.
\<close>

fun Concatenate_loop ::
  "externals \<Rightarrow> Concatenate_locals \<Rightarrow> Expr list \<Rightarrow> Type list \<Rightarrow> Expr list \<Rightarrow> nat
     \<Rightarrow> EthosnError \<Rightarrow> TensorInfo list \<Rightarrow> (EthosnError \<times> TensorInfo list) option" where
  "Concatenate_loop ext un input_zero_points input_tensors [] index err infos = Some (err, infos)"
| "Concatenate_loop ext un input_zero_points input_tensors (input_scale # rest) index err infos =
     do {
       input_tensor \<leftarrow> Array_at input_tensors index;
       input_zero_point \<leftarrow> Array_at input_zero_points index;
       (err_scale, scale) \<leftarrow> AsConstant input_scale (u_scale un);
       let err = err_add err err_scale;
       (err_zp, zp) \<leftarrow> AsConstant input_zero_point (u_zp un);
       let err = err_add err err_zp;
       (input_shape, input_dtype) \<leftarrow> as_TensorType input_tensor;
       (err_shape, input_tensor_shape) \<leftarrow> Tvm2Npu_TensorShape input_shape [1, 1, 1, 1];
       let err = err_add err err_shape;
       let (err_dtype, input_data_type) =
             Tvm2Npu_DataType ext input_dtype (u_input_data_type un);
       let err = err_add err err_dtype;
       Concatenate_loop ext un input_zero_points input_tensors rest (Suc index) err
         (infos @ [mk_TensorInfo input_tensor_shape input_data_type NHWC
                     \<lparr>m_ZeroPoint = zp, m_Scale = scale\<rparr>])
     }"

text \<open>\<^verbatim>\<open>EthosnAPI::Concatenate\<close>, on the parameter structure it is given.\<close>

definition Concatenate ::
  "externals \<Rightarrow> Concatenate_locals \<Rightarrow> Expr \<Rightarrow> ConcatenateParams
     \<Rightarrow> (EthosnError \<times> ConcatenateParams) option" where
  "Concatenate ext un expr params = do {
     (call_op, call_args, call_attrs) \<leftarrow> Downcast_Call expr;
     axis \<leftarrow> as_ConcatenateAttrs call_attrs;
     call_arg3 \<leftarrow> Array_at call_args 3;
     (err1, output_s) \<leftarrow> AsConstant call_arg3 (u_output_s un);
     call_arg4 \<leftarrow> Array_at call_args 4;
     (err2, output_zp) \<leftarrow> AsConstant call_arg4 (u_output_zp un);
     let err = err_add err1 err2;
     let info = \<lparr>concat_m_Axis = axis,
                 concat_m_OutputQuantizationInfo = \<lparr>m_ZeroPoint = output_zp, m_Scale = output_s\<rparr>\<rparr>;
     call_arg1 \<leftarrow> Array_at call_args 1;
     input_scales \<leftarrow> as_Tuple call_arg1;
     call_arg2 \<leftarrow> Array_at call_args 2;
     input_zero_points \<leftarrow> as_Tuple call_arg2;
     call_arg0 \<leftarrow> Array_at call_args 0;
     input_tensors \<leftarrow> as_TupleType (checked_type call_arg0);
     (err, infos) \<leftarrow>
       Concatenate_loop ext un input_zero_points input_tensors input_scales 0 err
         (input_infos params);
     Some (err, \<lparr>input_infos = infos, concat_info = info\<rparr>)
   }"

subsection \<open>The split translator\<close>

text \<open>Division of \<^verbatim>\<open>int64_t\<close> values: the quotient is truncated towards zero.\<close>

definition cpp_div :: "int \<Rightarrow> int \<Rightarrow> int" where
  "cpp_div a b = sgn a * sgn b * (\<bar>a\<bar> div \<bar>b\<bar>)"

text \<open>
  \<^verbatim>\<open>for (int i = 0; i < sections; i++) m_Sizes.push_back(size)\<close>, the comparison
  made in \<^verbatim>\<open>int64_t\<close>.
\<close>

function Split_sections_loop :: "nat \<Rightarrow> int \<Rightarrow> uint32 \<Rightarrow> uint32 list \<Rightarrow> uint32 list" where
  "Split_sections_loop i sections sz sizes =
     (if int i < sections then Split_sections_loop (Suc i) sections sz (sizes @ [sz])
      else sizes)"
  by pat_completeness auto
termination
  by (relation "measure (\<lambda>(i, sections, sz, sizes). nat (sections - int i))") auto

declare Split_sections_loop.simps [simp del]

text \<open>
  The loop over \<^verbatim>\<open>indices\<close>, with the running \<^verbatim>\<open>last_index\<close> (an
  \<^verbatim>\<open>int\<close>) and \<^verbatim>\<open>m_Sizes\<close>. The difference is taken in
  \<^verbatim>\<open>int64_t\<close>: it has no defined value outside that type.
\<close>

fun Split_indices_loop ::
  "PrimExpr list \<Rightarrow> int32 \<Rightarrow> uint32 list \<Rightarrow> (int32 \<times> uint32 list) option" where
  "Split_indices_loop [] last_index sizes = Some (last_index, sizes)"
| "Split_indices_loop (i # rest) last_index sizes =
     (case i of
        NonImm _ \<Rightarrow> None
      | IntImm val \<Rightarrow>
          let d = sint val - sint last_index in
          if d < - (2 ^ 63) \<or> 2 ^ 63 \<le> d then None
          else Split_indices_loop rest (ucast val) (sizes @ [word_of_int d]))"

text \<open>\<^verbatim>\<open>EthosnAPI::Split\<close>, on the parameter structure it is given.\<close>

definition Split ::
  "externals \<Rightarrow> sl_DataType \<Rightarrow> Expr \<Rightarrow> SplitParams \<Rightarrow> (EthosnError \<times> SplitParams) option" where
  "Split ext u_data_type expr params = do {
     (call_op, call_args, call_attrs) \<leftarrow> Downcast_Call expr;
     call_arg0 \<leftarrow> Array_at call_args 0;
     (input_shape, input_dtype) \<leftarrow> as_TensorType (checked_type call_arg0);
     (indices_or_sections, axis) \<leftarrow> as_SplitAttrs call_attrs;
     (err, input_tensor_shape) \<leftarrow> Tvm2Npu_TensorShape input_shape [1, 1, 1, 1];
     let (err_dtype, input_data_type) = Tvm2Npu_DataType ext input_dtype u_data_type;
     let err = err_add err err_dtype;
     let info = mk_TensorInfo input_tensor_shape input_data_type
                  (m_DataFormat (input_info params)) (m_QuantizationInfo (input_info params));
     extent \<leftarrow> (if 0 \<le> sint axis \<and> sint axis < 4
                then Some (input_tensor_shape ! nat (sint axis)) else None);
     sizes \<leftarrow>
       (case indices_or_sections of
          Sections sections \<Rightarrow>
            if sint sections = 0 \<or> 2 ^ 31 \<le> sint sections then None
            else Some (Split_sections_loop 0 (sint sections)
                         (word_of_int (cpp_div (uint extent) (sint sections)))
                         (m_Sizes (split_info params)))
        | Indices indices \<Rightarrow> do {
            (last_index, sizes) \<leftarrow> Split_indices_loop indices 0 (m_Sizes (split_info params));
            let d = sint extent - sint last_index;
            if d < - (2 ^ 31) \<or> 2 ^ 31 \<le> d then None
            else Some (sizes @ [word_of_int d])
          }
        | OtherObject \<Rightarrow> None);
     Some (err, \<lparr>input_info = info,
                 split_info = \<lparr>split_m_Axis = axis, m_Sizes = sizes\<rparr>\<rparr>)
   }"

subsection \<open>The capability query bindings\<close>

text \<open>
  The support library's capability queries are parameters of the model. A binding returns
  its verdict together with the queries it made, in order.
\<close>

record queries =
  IsConvolutionSupported ::
    "TensorInfo \<Rightarrow> TensorInfo \<Rightarrow> ConvolutionInfo \<Rightarrow> TensorInfo \<Rightarrow> bool"
  IsDepthwiseConvolutionSupported ::
    "TensorInfo \<Rightarrow> TensorInfo \<Rightarrow> ConvolutionInfo \<Rightarrow> TensorInfo \<Rightarrow> bool"
  IsConcatenationSupported :: "TensorInfo list \<Rightarrow> ConcatenationInfo \<Rightarrow> bool"
  IsSplitSupported :: "TensorInfo \<Rightarrow> SplitInfo \<Rightarrow> bool"

datatype query =
    ConvolutionQuery TensorInfo TensorInfo ConvolutionInfo TensorInfo
  | DepthwiseConvolutionQuery TensorInfo TensorInfo ConvolutionInfo TensorInfo
  | ConcatenationQuery "TensorInfo list" ConcatenationInfo
  | SplitQuery TensorInfo SplitInfo

text \<open>\<^verbatim>\<open>relay.ethos-n.support.conv2d\<close>\<close>

definition support_conv2d ::
  "externals \<Rightarrow> queries \<Rightarrow> QnnConv2d_locals \<Rightarrow> Expr \<Rightarrow> (bool \<times> query list) option" where
  "support_conv2d ext sl un call = do {
     checked \<leftarrow> Downcast_Call call;
     (err, params) \<leftarrow> QnnConv2d ext un call;
     if is_depthwise params then
       (if \<not> err_bool err then
          Some (IsDepthwiseConvolutionSupported sl (bias_info params) (weights_info params)
                  (conv_info params) (activation_info params),
                [DepthwiseConvolutionQuery (bias_info params) (weights_info params)
                   (conv_info params) (activation_info params)])
        else Some (False, []))
     else
       (if \<not> err_bool err then
          Some (IsConvolutionSupported sl (bias_info params) (weights_info params)
                  (conv_info params) (activation_info params),
                [ConvolutionQuery (bias_info params) (weights_info params)
                   (conv_info params) (activation_info params)])
        else Some (False, []))
   }"

text \<open>
  \<^verbatim>\<open>relay.ethos-n.support.concatenate\<close>. \<open>params\<close> is the default-constructed
  \<^verbatim>\<open>ConcatenateParams\<close>.
\<close>

definition support_concatenate ::
  "externals \<Rightarrow> queries \<Rightarrow> Concatenate_locals \<Rightarrow> ConcatenateParams \<Rightarrow> Expr
     \<Rightarrow> (bool \<times> query list) option" where
  "support_concatenate ext sl un params call = do {
     checked \<leftarrow> Downcast_Call call;
     (err, params) \<leftarrow> Concatenate ext un call params;
     if \<not> err_bool err then
       Some (IsConcatenationSupported sl (input_infos params) (concat_info params),
             [ConcatenationQuery (input_infos params) (concat_info params)])
     else Some (False, [])
   }"

text \<open>
  \<^verbatim>\<open>relay.ethos-n.support.split\<close>. \<open>params\<close> is the default-constructed
  \<^verbatim>\<open>SplitParams\<close>.
\<close>

definition support_split ::
  "externals \<Rightarrow> queries \<Rightarrow> sl_DataType \<Rightarrow> SplitParams \<Rightarrow> Expr \<Rightarrow> (bool \<times> query list) option" where
  "support_split ext sl u_data_type params call = do {
     checked \<leftarrow> Downcast_Call call;
     (err, params) \<leftarrow> Split ext u_data_type call params;
     if \<not> err_bool err then
       Some (IsSplitSupported sl (input_info params) (split_info params),
             [SplitQuery (input_info params) (split_info params)])
     else Some (False, [])
   }"

subsection \<open>Notions used to state the properties\<close>

text \<open>An expression that is an integer immediate.\<close>

definition is_IntImm :: "PrimExpr \<Rightarrow> bool" where
  "is_IntImm e = (case e of IntImm _ \<Rightarrow> True | NonImm _ \<Rightarrow> False)"

text \<open>The value of an integer immediate, read as the signed \<^verbatim>\<open>int64_t\<close> it is.\<close>

definition imm_value :: "PrimExpr \<Rightarrow> int" where
  "imm_value e = (case e of IntImm val \<Rightarrow> sint val | NonImm _ \<Rightarrow> 0)"

text \<open>An integer immediate whose value is not above the maximum of \<^verbatim>\<open>uint32_t\<close>.\<close>

definition fits_uint32 :: "PrimExpr \<Rightarrow> bool" where
  "fits_uint32 e = (case e of IntImm val \<Rightarrow> sint val \<le> uint32_max | NonImm _ \<Rightarrow> False)"

text \<open>\<^verbatim>\<open>static_cast<uint32_t>\<close> of the value of an integer immediate.\<close>

definition cast_uint32 :: "PrimExpr \<Rightarrow> uint32" where
  "cast_uint32 e = (case e of IntImm val \<Rightarrow> ucast val | NonImm _ \<Rightarrow> 0)"

text \<open>The range message of the array extractor for an element.\<close>

definition range_msg :: "PrimExpr \<Rightarrow> string" where
  "range_msg e =
     ''axis size='' @ show_int (imm_value e) @ '', axis size must be <= '' @ show_int uint32_max"

text \<open>The position of the first element that is not an immediate within range.\<close>

definition first_unfit :: "PrimExpr list \<Rightarrow> nat" where
  "first_unfit arr = length (takeWhile fits_uint32 arr)"

text \<open>
  The segment sizes in the words of the spec, for cut indices \<open>i1, ..., ik\<close> and extent
  \<open>E\<close>: \<open>[i1 - 0, i2 - i1, ..., ik - i(k-1), E - ik]\<close>. The first argument is the
  previous index.
\<close>

fun spec_segment_sizes :: "int \<Rightarrow> int list \<Rightarrow> int \<Rightarrow> int list" where
  "spec_segment_sizes prev [] E = [E - prev]"
| "spec_segment_sizes prev (i # rest) E = (i - prev) # spec_segment_sizes i rest E"

text \<open>An immediate whose value is a non-negative \<^verbatim>\<open>int\<close>.\<close>

definition is_index :: "PrimExpr \<Rightarrow> bool" where
  "is_index e = (is_IntImm e \<and> 0 \<le> imm_value e \<and> imm_value e < 2 ^ 31)"

subsection \<open>Values for the examples\<close>

text \<open>An instance of the functions taken from outside, for the examples.\<close>

definition example_externals :: externals where
  "example_externals =
     \<lparr>show_DataType = (\<lambda>t. ''dtype''), show_Array = (\<lambda>a. ''array''),
      float_mul = (\<lambda>a b. 0), ExprDeepEqual = (\<lambda>c g. c = IntImm (scast g))\<rparr>"

definition dtype_uint8 :: tvm_DataType where
  "dtype_uint8 = \<lparr>code = kDLUInt, bits = 8, lanes = 1\<rparr>"

definition dtype_int32 :: tvm_DataType where
  "dtype_int32 = \<lparr>code = kDLInt, bits = 32, lanes = 1\<rparr>"

text \<open>A split parameter structure with no segment sizes yet.\<close>

definition example_SplitParams :: SplitParams where
  "example_SplitParams =
     \<lparr>input_info = mk_TensorInfo [1, 1, 1, 1] UINT8_QUANTIZED NHWC
                     \<lparr>m_ZeroPoint = 0, m_Scale = 0\<rparr>,
      split_info = \<lparr>split_m_Axis = 0, m_Sizes = []\<rparr>\<rparr>"

text \<open>A split of a tensor of shape (1, \<open>extent\<close>, 4, 4) along axis 1.\<close>

definition example_split :: "int64 \<Rightarrow> ObjectRef \<Rightarrow> Expr" where
  "example_split extent indices_or_sections =
     Call ''split''
       [Var ''x'' (TensorType [IntImm 1, IntImm extent, IntImm 4, IntImm 4] dtype_uint8)]
       (SplitAttrs indices_or_sections 1) OtherType"

text \<open>A property of what a computation returns, when it returns.\<close>

definition returns :: "'a option \<Rightarrow> ('a \<Rightarrow> bool) \<Rightarrow> bool" where
  "returns m P = (case m of None \<Rightarrow> True | Some r \<Rightarrow> P r)"

text \<open>
  The condition under which \<^verbatim>\<open>QnnConv2d\<close> takes the first argument of the
  convolution for a standalone pad operator.
\<close>

definition is_nn_pad :: "Expr \<Rightarrow> bool" where
  "is_nn_pad e = (case e of Call op args attrs ty \<Rightarrow> op = ''nn.pad'' | _ \<Rightarrow> False)"

text \<open>First contents of the locals of the convolution translator, for the examples.\<close>

definition example_locals :: QnnConv2d_locals where
  "example_locals =
     \<lparr>u_input_zero_point = 0, u_kernel_zero_point = 0, u_output_zero_point = 0,
      u_input_scale = 0, u_kernel_scale = 0, u_output_scale = 0,
      u_q_info = \<lparr>m_ZeroPoint = 0, m_Scale = 0\<rparr>,
      u_padding = mk_Padding 0 0 0 0, u_stride = mk_Stride 1 1, u_dim = [0, 0, 0, 0],
      u_activation_tensor_shape = [0, 0, 0, 0], u_activation_data_type = UINT8_QUANTIZED,
      u_weights_tensor_shape = [0, 0, 0, 0], u_weights_data_type = UINT8_QUANTIZED,
      u_weights_data_format = NHWC\<rparr>"

text \<open>A scalar constant of four bytes.\<close>

definition example_scalar :: "8 word \<Rightarrow> Expr" where
  "example_scalar b = Constant [b, 0, 0, 0] (TensorType [] dtype_int32)"

text \<open>A quantized input of shape (1, 8, 8, 4), and a pad operator applied to it.\<close>

definition example_input :: Expr where
  "example_input = Var ''input'' (TensorType [IntImm 1, IntImm 8, IntImm 8, IntImm 4] dtype_uint8)"

definition example_pad :: Expr where
  "example_pad =
     Call ''nn.pad'' [example_input]
       (PadAttrs [[IntImm 0, IntImm 0], [IntImm 1, IntImm 2], [IntImm 3, IntImm 4],
                  [IntImm 0, IntImm 0]])
       (TensorType [IntImm 1, IntImm 11, IntImm 15, IntImm 4] dtype_uint8)"

text \<open>
  The call tree \<open>requantize (bias_add (conv2d (data, weights, ...), bias), ...)\<close> with
  a 3 x 3 kernel of 4 input and 8 output channels.
\<close>

definition example_conv :: "Expr \<Rightarrow> Conv2DAttrs \<Rightarrow> Expr" where
  "example_conv data conv_attr =
     Call ''qnn.requantize''
       [Call ''nn.bias_add''
          [Call ''qnn.conv2d''
             [data,
              Constant [0] (TensorType [IntImm 3, IntImm 3, IntImm 4, IntImm 8] dtype_uint8),
              example_scalar 10, example_scalar 0, example_scalar 1, example_scalar 2]
             (Conv2D conv_attr) OtherType,
           Constant [0] (TensorType [IntImm 8] dtype_int32)]
          OtherAttrs OtherType,
        example_scalar 3, example_scalar 0, example_scalar 4, example_scalar 5]
       OtherAttrs OtherType"

definition example_attrs :: "PrimExpr list \<Rightarrow> int32 \<Rightarrow> PrimExpr option \<Rightarrow> Conv2DAttrs" where
  "example_attrs attr_padding attr_groups attr_channels =
     \<lparr>strides = [IntImm 1, IntImm 1], padding = attr_padding,
      dilation = [IntImm 1, IntImm 1], groups = attr_groups, channels = attr_channels\<rparr>"

text \<open>
  What the convolution translator returns on the example call tree, for the three ways the
  examples vary: the first argument of the convolution, the padding attribute, and the
  group and channel counts.
\<close>

definition example_params :: "Padding \<Rightarrow> bool \<Rightarrow> ConvolutionParams" where
  "example_params pad depthwise =
     \<lparr>conv_info =
        \<lparr>m_Padding = pad, m_Stride = mk_Stride 1 1,
         m_OutputQuantizationInfo = \<lparr>m_ZeroPoint = 5, m_Scale = 4\<rparr>\<rparr>,
      activation_info =
        mk_TensorInfo [1, 8, 8, 4] UINT8_QUANTIZED NHWC \<lparr>m_ZeroPoint = 10, m_Scale = 1\<rparr>,
      weights_info =
        mk_TensorInfo [3, 3, 4, 8] UINT8_QUANTIZED (if depthwise then HWIM else HWIO)
          \<lparr>m_ZeroPoint = 0, m_Scale = 2\<rparr>,
      bias_info =
        mk_TensorInfo [1, 1, 1, if depthwise then 4 else 8] INT32_QUANTIZED NHWC
          \<lparr>m_ZeroPoint = 0, m_Scale = 0\<rparr>,
      raw_weights = [0], raw_bias = [0], is_depthwise = depthwise\<rparr>"

text \<open>Which capability query an entry of a binding's record is.\<close>

definition is_ConvolutionQuery :: "query \<Rightarrow> bool" where
  "is_ConvolutionQuery q = (case q of ConvolutionQuery b w c a \<Rightarrow> True | _ \<Rightarrow> False)"

definition is_DepthwiseConvolutionQuery :: "query \<Rightarrow> bool" where
  "is_DepthwiseConvolutionQuery q =
     (case q of DepthwiseConvolutionQuery b w c a \<Rightarrow> True | _ \<Rightarrow> False)"

text \<open>
  An instance of the capability queries, for the examples: each accepts the descriptors
  whose weights or first input are in the layout it expects.
\<close>

definition example_queries :: queries where
  "example_queries =
     \<lparr>IsConvolutionSupported = (\<lambda>b w c a. m_DataFormat w = HWIO),
      IsDepthwiseConvolutionSupported = (\<lambda>b w c a. m_DataFormat w = HWIM),
      IsConcatenationSupported = (\<lambda>infos info. length infos = 2),
      IsSplitSupported = (\<lambda>info split. m_Sizes split = [3, 3, 3])\<rparr>"

text \<open>First contents of the locals of the concatenation translator, for the examples.\<close>

definition example_concat_locals :: Concatenate_locals where
  "example_concat_locals =
     \<lparr>u_output_s = 0, u_output_zp = 0, u_scale = 0, u_zp = 0,
      u_input_data_type = UINT8_QUANTIZED\<rparr>"

text \<open>A concatenation parameter structure with no inputs yet.\<close>

definition example_ConcatenateParams :: ConcatenateParams where
  "example_ConcatenateParams =
     \<lparr>input_infos = [],
      concat_info = \<lparr>concat_m_Axis = 1,
                      concat_m_OutputQuantizationInfo = \<lparr>m_ZeroPoint = 0, m_Scale = 0\<rparr>\<rparr>\<rparr>"

text \<open>
  The call \<open>concatenate ((a, b), (scales), (zero points), out_scale, out_zp)\<close> of two
  inputs of shapes (1, 8, 8, 4) and (1, 8, 8, 6) along axis 3.
\<close>

definition example_concat :: Expr where
  "example_concat =
     Call ''qnn.concatenate''
       [Tuple [Var ''a'' (TensorType [IntImm 1, IntImm 8, IntImm 8, IntImm 4] dtype_uint8),
               Var ''b'' (TensorType [IntImm 1, IntImm 8, IntImm 8, IntImm 6] dtype_uint8)]
          (TupleType [TensorType [IntImm 1, IntImm 8, IntImm 8, IntImm 4] dtype_uint8,
                      TensorType [IntImm 1, IntImm 8, IntImm 8, IntImm 6] dtype_uint8]),
        Tuple [example_scalar 1, example_scalar 2] OtherType,
        Tuple [example_scalar 3, example_scalar 4] OtherType,
        example_scalar 5, example_scalar 6]
       (ConcatenateAttrs 3) OtherType"

text \<open>What the concatenation and split translators return on the examples.\<close>

definition example_concat_result :: ConcatenateParams where
  "example_concat_result =
     \<lparr>input_infos =
        [mk_TensorInfo [1, 8, 8, 4] UINT8_QUANTIZED NHWC \<lparr>m_ZeroPoint = 3, m_Scale = 1\<rparr>,
         mk_TensorInfo [1, 8, 8, 6] UINT8_QUANTIZED NHWC \<lparr>m_ZeroPoint = 4, m_Scale = 2\<rparr>],
      concat_info = \<lparr>concat_m_Axis = 3,
                      concat_m_OutputQuantizationInfo = \<lparr>m_ZeroPoint = 6, m_Scale = 5\<rparr>\<rparr>\<rparr>"

definition example_split_result :: SplitParams where
  "example_split_result =
     \<lparr>input_info = mk_TensorInfo [1, 9, 4, 4] UINT8_QUANTIZED NHWC
                     \<lparr>m_ZeroPoint = 0, m_Scale = 0\<rparr>,
      split_info = \<lparr>split_m_Axis = 1, m_Sizes = [3, 3, 3]\<rparr>\<rparr>"

section \<open>Properties\<close>

subsection \<open>The error accumulator: algebra\<close>

text \<open>
  C5. Combining errors is associative; the messages of a combination are the messages of
  the first operand followed by those of the second, in order; combining with the
  zero-message error on either side changes nothing; and the boolean predicate holds
  exactly when the error holds at least one message.
\<close>

theorem err_add_algebra:
  "err_add (err_add a b) c = err_add a (err_add b c)
   \<and> msgs (err_add (EthosnError xs) (EthosnError ys)) = xs @ ys
   \<and> err_add a no_error = a
   \<and> err_add no_error a = a
   \<and> err_bool a = (length (msgs a) \<ge> 1)"
  by (cases a) (simp add: err_add_def no_error_def err_bool_def Suc_le_eq)

subsection \<open>Evaluation of the message text\<close>

lemma show_nat_digit: "n < 10 \<Longrightarrow> show_nat n = [''0123456789'' ! n]"
  by (subst show_nat.simps) simp

lemma show_nat_more:
  "10 \<le> n \<Longrightarrow> show_nat n = show_nat (n div 10) @ [''0123456789'' ! (n mod 10)]"
  by (subst show_nat.simps) simp

lemmas show_simps = show_int_def show_nat_digit show_nat_more uint32_max_def

subsection \<open>The array extractor\<close>

lemma AsArray_loop_ok:
  "i \<le> length arr \<Longrightarrow> length arr \<le> 4 \<Longrightarrow> length arr \<le> length v \<Longrightarrow>
   \<forall>j. i \<le> j \<and> j < length arr \<longrightarrow> fits_uint32 (arr ! j) \<Longrightarrow>
   AsArray_loop arr i v =
     Some (no_error, take i v @ map cast_uint32 (drop i arr) @ drop (length arr) v)"
proof (induction arr i v rule: AsArray_loop.induct)
  case (1 arr i v)
  show ?case
  proof (cases "i < length arr")
    case False
    with 1(2) have "i = length arr" by simp
    then show ?thesis using 1(3,4) by (subst AsArray_loop.simps) simp
  next
    case True
    with 1(5) have "fits_uint32 (arr ! i)" by simp
    then obtain val where a: "arr ! i = IntImm val" and le: "sint val \<le> uint32_max"
      by (auto simp: fits_uint32_def split: PrimExpr.splits)
    have "AsArray_loop arr (Suc i) (v[i := ucast val]) =
       Some (no_error, take (Suc i) (v[i := ucast val]) @ map cast_uint32 (drop (Suc i) arr)
               @ drop (length arr) (v[i := ucast val]))"
      using 1(1)[of val] True a le 1(3,4,5) by simp
    moreover have "take (Suc i) (v[i := ucast val]) = take i v @ [cast_uint32 (arr ! i)]"
      using True 1(4) a by (simp add: take_Suc_conv_app_nth cast_uint32_def)
    moreover have "drop i arr = arr ! i # drop (Suc i) arr"
      using True by (simp add: Cons_nth_drop_Suc)
    ultimately show ?thesis using True 1(3) a le
      by (subst AsArray_loop.simps) simp
  qed
qed

lemma AsArray_loop_range:
  "i \<le> k \<Longrightarrow> k < length arr \<Longrightarrow> length arr \<le> 4 \<Longrightarrow> length arr \<le> length v \<Longrightarrow>
   \<forall>j. i \<le> j \<and> j < k \<longrightarrow> fits_uint32 (arr ! j) \<Longrightarrow>
   is_IntImm (arr ! k) \<Longrightarrow> \<not> fits_uint32 (arr ! k) \<Longrightarrow>
   AsArray_loop arr i v =
     Some (error_msg (range_msg (arr ! k)),
           take i v @ map cast_uint32 (take (k - i) (drop i arr)) @ drop k v)"
proof (induction arr i v rule: AsArray_loop.induct)
  case (1 arr i v)
  show ?case
  proof (cases "i = k")
    case True
    then show ?thesis using 1(3-8)
      by (subst AsArray_loop.simps)
        (auto simp add: is_IntImm_def fits_uint32_def range_msg_def imm_value_def
          split: PrimExpr.splits)
  next
    case False
    with 1(2) have ik: "i < k" by simp
    with 1(6) have "fits_uint32 (arr ! i)" by simp
    then obtain val where a: "arr ! i = IntImm val" and le: "sint val \<le> uint32_max"
      by (auto simp: fits_uint32_def split: PrimExpr.splits)
    have "AsArray_loop arr (Suc i) (v[i := ucast val]) =
       Some (error_msg (range_msg (arr ! k)),
             take (Suc i) (v[i := ucast val]) @ map cast_uint32 (take (k - Suc i) (drop (Suc i) arr))
               @ drop k (v[i := ucast val]))"
      using 1(1)[of val] ik a le 1(3-8) by simp
    moreover have "take (Suc i) (v[i := ucast val]) = take i v @ [cast_uint32 (arr ! i)]"
      using ik 1(3,5) a by (simp add: take_Suc_conv_app_nth cast_uint32_def)
    moreover have "take (k - i) (drop i arr) = arr ! i # take (k - Suc i) (drop (Suc i) arr)"
      using ik 1(3) by (metis Cons_nth_drop_Suc Suc_diff_Suc less_trans take_Suc_Cons)
    ultimately show ?thesis using ik 1(3,4) a le
      by (subst AsArray_loop.simps) simp
  qed
qed

text \<open>The extractor accepts an array of at most four immediates within range.\<close>

lemma AsArray_ok:
  assumes "length v = 4" and "length arr \<le> 4" and "list_all fits_uint32 arr"
  shows "AsArray arr v = Some (no_error, map cast_uint32 arr @ drop (length arr) v)"
  using assms AsArray_loop_ok [of 0 arr v]
  by (simp add: AsArray_def list_all_length)

text \<open>The extractor rejects an array of more than four elements and writes nothing.\<close>

lemma AsArray_too_long:
  "4 < length arr \<Longrightarrow>
   AsArray arr v =
     Some (error_msg (''dimensions='' @ show_nat (length arr) @ '', dimensions must be <= 4''), v)"
  by (simp add: AsArray_def)

lemma first_unfit_props:
  assumes "\<not> list_all fits_uint32 arr"
  shows "first_unfit arr < length arr"
    and "\<not> fits_uint32 (arr ! first_unfit arr)"
    and "\<forall>j < first_unfit arr. fits_uint32 (arr ! j)"
proof -
  from assms have ex: "\<exists>x \<in> set arr. \<not> fits_uint32 x"
    by (simp add: list_all_iff)
  have "takeWhile fits_uint32 arr \<noteq> arr"
    using ex by (metis set_takeWhileD)
  then have "length (takeWhile fits_uint32 arr) \<noteq> length arr"
    by (metis takeWhile_eq_take take_all_iff le_refl)
  then show lt: "first_unfit arr < length arr"
    unfolding first_unfit_def using length_takeWhile_le [of fits_uint32 arr] by simp
  then show "\<not> fits_uint32 (arr ! first_unfit arr)"
    unfolding first_unfit_def by (metis nth_length_takeWhile)
  show "\<forall>j < first_unfit arr. fits_uint32 (arr ! j)"
    unfolding first_unfit_def
    by (metis nth_mem set_takeWhileD takeWhile_nth)
qed

text \<open>
  The extractor stops at the first element above the maximum: the slots before it hold
  the values copied so far, the others are as the caller left them.
\<close>

lemma AsArray_range:
  assumes "length v = 4" and "length arr \<le> 4" and "\<not> list_all fits_uint32 arr"
    and "is_IntImm (arr ! first_unfit arr)"
  shows "AsArray arr v =
     Some (error_msg (range_msg (arr ! first_unfit arr)),
           map cast_uint32 (take (first_unfit arr) arr) @ drop (first_unfit arr) v)"
  using assms first_unfit_props [OF assms(3)]
    AsArray_loop_range [of 0 "first_unfit arr" arr v]
  by (simp add: AsArray_def)

lemma cast_uint32_mod: "uint (cast_uint32 e) = imm_value e mod 2 ^ 32"
proof (cases e)
  case (IntImm val)
  have "uint (ucast val :: 32 word) = take_bit 32 (uint val)"
    by (simp add: unsigned_ucast_eq)
  also have "\<dots> = take_bit 32 (take_bit 64 (sint val))"
    by (simp add: uint_sint)
  also have "\<dots> = take_bit 32 (sint val)"
    by simp
  finally show ?thesis using IntImm
    by (simp add: cast_uint32_def imm_value_def take_bit_eq_mod)
next
  case (NonImm x)
  then show ?thesis by (simp add: cast_uint32_def imm_value_def)
qed

lemma cast_uint32_value:
  "fits_uint32 e \<Longrightarrow> 0 \<le> imm_value e \<Longrightarrow> uint (cast_uint32 e) = imm_value e"
  by (cases e) (simp_all add: cast_uint32_mod fits_uint32_def imm_value_def uint32_max_def)

text \<open>
  C9. The array extractor fails on a source of more than four elements, writing nothing.
  On a source of at most four elements, if some element is an immediate above the maximum
  of uint32 (the elements before it being immediates), the extractor fails with the range
  message of the first such element; the slots before that element hold the values copied
  from the source, and every other slot is as the caller left it.
\<close>

theorem AsArray_failures:
  assumes "length v = 4"
  shows "(4 < length arr \<longrightarrow>
            AsArray arr v =
              Some (error_msg (''dimensions='' @ show_nat (length arr)
                      @ '', dimensions must be <= 4''), v))
       \<and> (length arr \<le> 4 \<and> k < length arr \<and> uint32_max < imm_value (arr ! k)
            \<and> (\<forall>j \<le> k. is_IntImm (arr ! j)) \<longrightarrow>
            first_unfit arr \<le> k
            \<and> uint32_max < imm_value (arr ! first_unfit arr)
            \<and> AsArray arr v =
                Some (error_msg (range_msg (arr ! first_unfit arr)),
                      map cast_uint32 (take (first_unfit arr) arr) @ drop (first_unfit arr) v))"
proof (intro conjI impI)
  assume "4 < length arr"
  then show "AsArray arr v =
      Some (error_msg (''dimensions='' @ show_nat (length arr) @ '', dimensions must be <= 4''), v)"
    by (rule AsArray_too_long)
next
  assume h: "length arr \<le> 4 \<and> k < length arr \<and> uint32_max < imm_value (arr ! k)
            \<and> (\<forall>j \<le> k. is_IntImm (arr ! j))"
  then have unfit_k: "\<not> fits_uint32 (arr ! k)"
    by (auto simp: fits_uint32_def imm_value_def split: PrimExpr.splits)
  with h have not_all: "\<not> list_all fits_uint32 arr"
    by (auto simp: list_all_length)
  note fu = first_unfit_props [OF not_all]
  show le: "first_unfit arr \<le> k"
    using fu(3) unfit_k by (meson not_le)
  with h have imm: "is_IntImm (arr ! first_unfit arr)" by simp
  with fu(2) show "uint32_max < imm_value (arr ! first_unfit arr)"
    by (auto simp: fits_uint32_def imm_value_def is_IntImm_def split: PrimExpr.splits)
  show "AsArray arr v =
      Some (error_msg (range_msg (arr ! first_unfit arr)),
            map cast_uint32 (take (first_unfit arr) arr) @ drop (first_unfit arr) v)"
    using assms h not_all imm by (intro AsArray_range) simp_all
qed

lemma first_unfit_Cons:
  "first_unfit (e # es) = (if fits_uint32 e then Suc (first_unfit es) else 0)"
  by (simp add: first_unfit_def)

lemma first_unfit_Nil: "first_unfit [] = 0"
  by (simp add: first_unfit_def)

lemmas eval_simps =
  show_simps first_unfit_Cons first_unfit_Nil fits_uint32_def is_IntImm_def imm_value_def
  cast_uint32_def range_msg_def

theorem AsArray_failures_witness:
  "AsArray [IntImm 1, IntImm 2, IntImm 3, IntImm 4, IntImm 5] [1, 1, 1, 1] =
     Some (error_msg ''dimensions=5, dimensions must be <= 4'', [1, 1, 1, 1])
   \<and> AsArray [IntImm 7, IntImm 4294967296, IntImm 9] [1, 1, 1, 1] =
     Some (error_msg ''axis size=4294967296, axis size must be <= 4294967295'', [7, 1, 1, 1])"
  using AsArray_failures [of "[1, 1, 1, 1]" "[IntImm 1, IntImm 2, IntImm 3, IntImm 4, IntImm 5]" 0]
    AsArray_failures [of "[1, 1, 1, 1]" "[IntImm 7, IntImm 4294967296, IntImm 9]" 1]
  by (simp add: eval_simps less_Suc_eq_le le_Suc_eq)

subsection \<open>Stride conversion\<close>

text \<open>
  C8, as stated, fails: a stride array of exactly two elements is rejected when an element
  is above the maximum of uint32.
\<close>

theorem Tvm2Npu_Stride_two_elements_fail:
  "length [IntImm 4294967296, IntImm 1] = 2
   \<and> Tvm2Npu_Stride [0, 0, 0, 0] [IntImm 4294967296, IntImm 1] (mk_Stride 1 1) =
       Some (error_msg ''axis size=4294967296, axis size must be <= 4294967295'', mk_Stride 1 1)
   \<and> err_bool (error_msg ''axis size=4294967296, axis size must be <= 4294967295'')"
  by (simp add: Tvm2Npu_Stride_def AsArray_def AsArray_loop.simps show_simps err_bool_def
      error_msg_def)

text \<open>
  C8, amended. Stride conversion fails, with the stride-size message and the output
  unchanged, on every array that does not have exactly two elements. On a two-element
  array (h, w) of immediates it fails exactly when a value is above the maximum of uint32,
  with the extractor's range message and the output unchanged; otherwise it succeeds and
  the stride descriptor is (w, h), the axis order swapped.
\<close>

theorem Tvm2Npu_Stride_amended:
  assumes "length dim = 4"
  shows "(length arr \<noteq> 2 \<longrightarrow>
            Tvm2Npu_Stride dim arr s =
              Some (error_msg (''stride size='' @ show_nat (length arr)
                      @ '', stride size must = 2''), s))
       \<and> (fits_uint32 h \<and> fits_uint32 w \<longrightarrow>
            Tvm2Npu_Stride dim [h, w] s =
              Some (no_error, mk_Stride (cast_uint32 w) (cast_uint32 h)))
       \<and> (is_IntImm h \<and> is_IntImm w \<and> \<not> (fits_uint32 h \<and> fits_uint32 w) \<longrightarrow>
            Tvm2Npu_Stride dim [h, w] s =
              Some (error_msg (range_msg (if fits_uint32 h then w else h)), s))"
proof (intro conjI impI)
  assume "length arr \<noteq> 2"
  then show "Tvm2Npu_Stride dim arr s =
      Some (error_msg (''stride size='' @ show_nat (length arr) @ '', stride size must = 2''), s)"
    by (simp add: Tvm2Npu_Stride_def)
next
  assume "fits_uint32 h \<and> fits_uint32 w"
  then have "AsArray [h, w] dim =
      Some (no_error, map cast_uint32 [h, w] @ drop (length [h, w]) dim)"
    using assms by (intro AsArray_ok) simp_all
  then show "Tvm2Npu_Stride dim [h, w] s =
      Some (no_error, mk_Stride (cast_uint32 w) (cast_uint32 h))"
    by (simp add: Tvm2Npu_Stride_def err_bool_def no_error_def)
next
  assume h: "is_IntImm h \<and> is_IntImm w \<and> \<not> (fits_uint32 h \<and> fits_uint32 w)"
  then have "AsArray [h, w] dim =
      Some (error_msg (range_msg ([h, w] ! first_unfit [h, w])),
            map cast_uint32 (take (first_unfit [h, w]) [h, w]) @ drop (first_unfit [h, w]) dim)"
    using assms by (intro AsArray_range) (auto simp: first_unfit_Cons first_unfit_Nil)
  moreover have "[h, w] ! first_unfit [h, w] = (if fits_uint32 h then w else h)"
    using h by (auto simp: first_unfit_Cons first_unfit_Nil)
  ultimately show "Tvm2Npu_Stride dim [h, w] s =
      Some (error_msg (range_msg (if fits_uint32 h then w else h)), s)"
    by (simp add: Tvm2Npu_Stride_def err_bool_def error_msg_def)
qed

theorem Tvm2Npu_Stride_amended_witness:
  "Tvm2Npu_Stride [0, 0, 0, 0] [IntImm 2, IntImm 3, IntImm 4] (mk_Stride 1 1) =
     Some (error_msg ''stride size=3, stride size must = 2'', mk_Stride 1 1)
   \<and> Tvm2Npu_Stride [0, 0, 0, 0] [IntImm 2, IntImm 3] (mk_Stride 1 1) =
     Some (no_error, mk_Stride 3 2)
   \<and> Tvm2Npu_Stride [0, 0, 0, 0] [IntImm 2, IntImm 4294967296] (mk_Stride 1 1) =
     Some (error_msg ''axis size=4294967296, axis size must be <= 4294967295'', mk_Stride 1 1)"
  using Tvm2Npu_Stride_amended [of "[0, 0, 0, 0]" "[IntImm 2, IntImm 3, IntImm 4]"
      "mk_Stride 1 1" "IntImm 2" "IntImm 3"]
    Tvm2Npu_Stride_amended [of "[0, 0, 0, 0]" "[]" "mk_Stride 1 1" "IntImm 2" "IntImm 4294967296"]
  by (simp add: eval_simps)

subsection \<open>Shape conversion\<close>

text \<open>
  C7, as stated, fails: for a shape of five dimensions whose first is 2, converted into a
  shape initialised to \<open>{1, 1, 1, 1}\<close> (as the split and concatenation translators do),
  the only message is the extractor's, not a batch-size message, and the output is not
  populated from the input.
\<close>

theorem Tvm2Npu_TensorShape_five_dims:
  "Tvm2Npu_TensorShape [IntImm 2, IntImm 3, IntImm 4, IntImm 5, IntImm 6] [1, 1, 1, 1] =
     Some (EthosnError [''dimensions=5, dimensions must be <= 4''], [1, 1, 1, 1])"
  by (simp add: Tvm2Npu_TensorShape_def AsArray_def show_simps error_msg_def)

text \<open>
  C7, amended. For every shape array of one to four immediates whose first element is not
  above the maximum of uint32 and, converted to uint32, is not 1, the conversion returns
  an error that ends with the batch-size message. If no element is above the maximum, the
  batch-size message is the only one and the output shape holds the converted value of
  every input element in order, the slots past the input's length being as the caller left
  them: for a shape of four elements the remaining three dimensions are those of the
  input. If an element is above the maximum, the extractor's range message comes first and
  only the elements before the first such element are written.
\<close>

theorem Tvm2Npu_TensorShape_batch:
  assumes "length npu_shape = 4"
    and "shape \<noteq> []" and "length shape \<le> 4"
    and "list_all is_IntImm shape"
    and "fits_uint32 (hd shape)" and "cast_uint32 (hd shape) \<noteq> 1"
  shows "(list_all fits_uint32 shape \<longrightarrow>
            Tvm2Npu_TensorShape shape npu_shape =
              Some (EthosnError
                      [''batch size='' @ show_nat (unat (cast_uint32 (hd shape)))
                         @ '', batch size must = 1''],
                    map cast_uint32 shape @ drop (length shape) npu_shape))
       \<and> (\<not> list_all fits_uint32 shape \<longrightarrow>
            Tvm2Npu_TensorShape shape npu_shape =
              Some (EthosnError
                      [range_msg (shape ! first_unfit shape),
                       ''batch size='' @ show_nat (unat (cast_uint32 (hd shape)))
                         @ '', batch size must = 1''],
                    map cast_uint32 (take (first_unfit shape) shape)
                      @ drop (first_unfit shape) npu_shape))"
proof (intro conjI impI)
  assume "list_all fits_uint32 shape"
  then have "AsArray shape npu_shape =
      Some (no_error, map cast_uint32 shape @ drop (length shape) npu_shape)"
    using assms by (intro AsArray_ok) simp_all
  moreover have "(map cast_uint32 shape @ drop (length shape) npu_shape) ! 0 = cast_uint32 (hd shape)"
    using assms(2) by (cases shape) simp_all
  ultimately show "Tvm2Npu_TensorShape shape npu_shape =
      Some (EthosnError
              [''batch size='' @ show_nat (unat (cast_uint32 (hd shape)))
                 @ '', batch size must = 1''],
            map cast_uint32 shape @ drop (length shape) npu_shape)"
    using assms(6)
    by (simp add: Tvm2Npu_TensorShape_def err_add_def no_error_def error_msg_def)
next
  assume unfit: "\<not> list_all fits_uint32 shape"
  note fu = first_unfit_props [OF unfit]
  from fu(1) assms(4) have "is_IntImm (shape ! first_unfit shape)"
    by (simp add: list_all_length)
  then have "AsArray shape npu_shape =
      Some (error_msg (range_msg (shape ! first_unfit shape)),
            map cast_uint32 (take (first_unfit shape) shape) @ drop (first_unfit shape) npu_shape)"
    using assms unfit by (intro AsArray_range) simp_all
  moreover have "0 < first_unfit shape"
    using assms(2,5) by (cases shape) (simp_all add: first_unfit_Cons)
  then have "(map cast_uint32 (take (first_unfit shape) shape)
               @ drop (first_unfit shape) npu_shape) ! 0 = cast_uint32 (hd shape)"
    using assms(2) fu(1) by (cases shape) (simp_all add: nth_append take_Cons')
  ultimately show "Tvm2Npu_TensorShape shape npu_shape =
      Some (EthosnError
              [range_msg (shape ! first_unfit shape),
               ''batch size='' @ show_nat (unat (cast_uint32 (hd shape)))
                 @ '', batch size must = 1''],
            map cast_uint32 (take (first_unfit shape) shape)
              @ drop (first_unfit shape) npu_shape)"
    using assms(6)
    by (simp add: Tvm2Npu_TensorShape_def err_add_def error_msg_def)
qed

theorem Tvm2Npu_TensorShape_batch_witness:
  "Tvm2Npu_TensorShape [IntImm 2, IntImm 8, IntImm 8, IntImm 4] [1, 1, 1, 1] =
     Some (EthosnError [''batch size=2, batch size must = 1''], [2, 8, 8, 4])
   \<and> Tvm2Npu_TensorShape [IntImm 2, IntImm 8, IntImm 4294967296, IntImm 4] [1, 1, 1, 1] =
     Some (EthosnError [''axis size=4294967296, axis size must be <= 4294967295'',
                        ''batch size=2, batch size must = 1''], [2, 8, 1, 1])"
  using Tvm2Npu_TensorShape_batch [of "[1, 1, 1, 1]" "[IntImm 2, IntImm 8, IntImm 8, IntImm 4]"]
    Tvm2Npu_TensorShape_batch
      [of "[1, 1, 1, 1]" "[IntImm 2, IntImm 8, IntImm 4294967296, IntImm 4]"]
  by (simp add: eval_simps)

subsection \<open>Padding conversion\<close>

text \<open>
  C4, as stated, fails. A flat array of three elements, the first above the maximum of
  uint32, fails with the extractor's range message and not with a size-mismatch message.
  A one-element array whose element is above that maximum does not give (p, p, p, p): the
  conversion fails with the range message and the output padding is unchanged.
\<close>

theorem Tvm2Npu_Padding_range_first:
  "Tvm2Npu_Padding [0, 0, 0, 0] [IntImm 4294967296, IntImm 0, IntImm 0] (mk_Padding 7 7 7 7) =
     Some (EthosnError [''axis size=4294967296, axis size must be <= 4294967295''],
           mk_Padding 7 7 7 7)
   \<and> Tvm2Npu_Padding [0, 0, 0, 0] [IntImm 4294967296] (mk_Padding 7 7 7 7) =
     Some (EthosnError [''axis size=4294967296, axis size must be <= 4294967295''],
           mk_Padding 7 7 7 7)"
  by (simp add: Tvm2Npu_Padding_def AsArray_def AsArray_loop.simps show_simps err_bool_def
      error_msg_def)

text \<open>
  C4, amended. When the elements it reads are immediates not above the maximum of uint32,
  padding conversion produces the canonical (top, bottom, left, right) margins: [p] gives
  (p, p, p, p); [h, w] gives (h, h, w, w); the flat (top, left, bottom, right) gives
  (top, bottom, left, right); the nested form of four outer entries
  (batch, height, width, channel), height and width being pairs, gives
  (height low, height high, width low, width high). Of the nested form only the height and
  width pairs are read: the batch and channel entries are discarded unread, whatever they
  hold, even values above the maximum. A flat array of in-range immediates of length 0 or 3
  fails with the padding-tuple-size message; a flat array of more than four elements fails
  with the extractor's dimensions message; a nested array whose outer size is not 4 fails
  with its padding-tuple-size message. A flat array of at most four elements in which the
  first element that is not an in-range immediate is an immediate above the maximum fails
  with the extractor's range message for that element. A nested form of four outer entries
  whose four height and width values are immediates fails with the range message exactly
  when one of these four values is above the maximum, the message being that of the first
  such value in the order (height low, height high, width low, width high). In every
  failure the output padding is unchanged.
\<close>

theorem Tvm2Npu_Padding_amended:
  assumes "length dim = 4"
  shows "(fits_uint32 p \<longrightarrow>
            Tvm2Npu_Padding dim [p] npu =
              Some (no_error, mk_Padding (cast_uint32 p) (cast_uint32 p) (cast_uint32 p)
                                (cast_uint32 p)))
       \<and> (fits_uint32 h \<and> fits_uint32 w \<longrightarrow>
            Tvm2Npu_Padding dim [h, w] npu =
              Some (no_error, mk_Padding (cast_uint32 h) (cast_uint32 h) (cast_uint32 w)
                                (cast_uint32 w)))
       \<and> (fits_uint32 t \<and> fits_uint32 l \<and> fits_uint32 b \<and> fits_uint32 r \<longrightarrow>
            Tvm2Npu_Padding dim [t, l, b, r] npu =
              Some (no_error, mk_Padding (cast_uint32 t) (cast_uint32 b) (cast_uint32 l)
                                (cast_uint32 r)))
       \<and> (fits_uint32 hl \<and> fits_uint32 hh \<and> fits_uint32 wl \<and> fits_uint32 wh \<longrightarrow>
            Tvm2Npu_Padding_nested dim [batch, [hl, hh], [wl, wh], channel] npu =
              Some (no_error, mk_Padding (cast_uint32 hl) (cast_uint32 hh) (cast_uint32 wl)
                                (cast_uint32 wh)))
       \<and> (list_all fits_uint32 arr \<and> (length arr = 0 \<or> length arr = 3) \<longrightarrow>
            Tvm2Npu_Padding dim arr npu =
              Some (error_msg (''padding tuple size='' @ show_nat (length arr)
                      @ '', padding tuple size must be {1, 2, 4}''), npu))
       \<and> (4 < length arr \<longrightarrow>
            Tvm2Npu_Padding dim arr npu =
              Some (error_msg (''dimensions='' @ show_nat (length arr)
                      @ '', dimensions must be <= 4''), npu))
       \<and> (length nested \<noteq> 4 \<longrightarrow>
            Tvm2Npu_Padding_nested dim nested npu =
              Some (error_msg (''padding tuple size='' @ show_nat (length nested)
                      @ '', padding tuple size must = 4''), npu))
       \<and> (length arr \<le> 4 \<and> \<not> list_all fits_uint32 arr
            \<and> is_IntImm (arr ! first_unfit arr) \<longrightarrow>
            Tvm2Npu_Padding dim arr npu =
              Some (error_msg (range_msg (arr ! first_unfit arr)), npu))
       \<and> (list_all is_IntImm [hl, hh, wl, wh] \<and> \<not> list_all fits_uint32 [hl, hh, wl, wh] \<longrightarrow>
            Tvm2Npu_Padding_nested dim [batch, [hl, hh], [wl, wh], channel] npu =
              Some (error_msg (range_msg ([hl, hh, wl, wh] ! first_unfit [hl, hh, wl, wh])),
                    npu))"
proof (intro conjI impI)
  assume "fits_uint32 p"
  then have "AsArray [p] dim = Some (no_error, map cast_uint32 [p] @ drop (length [p]) dim)"
    using assms by (intro AsArray_ok) simp_all
  then show "Tvm2Npu_Padding dim [p] npu =
      Some (no_error, mk_Padding (cast_uint32 p) (cast_uint32 p) (cast_uint32 p) (cast_uint32 p))"
    by (simp add: Tvm2Npu_Padding_def err_bool_def no_error_def)
next
  assume "fits_uint32 h \<and> fits_uint32 w"
  then have "AsArray [h, w] dim =
      Some (no_error, map cast_uint32 [h, w] @ drop (length [h, w]) dim)"
    using assms by (intro AsArray_ok) simp_all
  then show "Tvm2Npu_Padding dim [h, w] npu =
      Some (no_error, mk_Padding (cast_uint32 h) (cast_uint32 h) (cast_uint32 w) (cast_uint32 w))"
    by (simp add: Tvm2Npu_Padding_def err_bool_def no_error_def)
next
  assume "fits_uint32 t \<and> fits_uint32 l \<and> fits_uint32 b \<and> fits_uint32 r"
  then have "AsArray [t, l, b, r] dim =
      Some (no_error, map cast_uint32 [t, l, b, r] @ drop (length [t, l, b, r]) dim)"
    using assms by (intro AsArray_ok) simp_all
  then show "Tvm2Npu_Padding dim [t, l, b, r] npu =
      Some (no_error, mk_Padding (cast_uint32 t) (cast_uint32 b) (cast_uint32 l) (cast_uint32 r))"
    by (simp add: Tvm2Npu_Padding_def err_bool_def no_error_def)
next
  assume "fits_uint32 hl \<and> fits_uint32 hh \<and> fits_uint32 wl \<and> fits_uint32 wh"
  then have "AsArray [hl, hh, wl, wh] dim =
      Some (no_error, map cast_uint32 [hl, hh, wl, wh] @ drop (length [hl, hh, wl, wh]) dim)"
    using assms by (intro AsArray_ok) simp_all
  then show "Tvm2Npu_Padding_nested dim [batch, [hl, hh], [wl, wh], channel] npu =
      Some (no_error, mk_Padding (cast_uint32 hl) (cast_uint32 hh) (cast_uint32 wl)
                        (cast_uint32 wh))"
    by (simp add: Tvm2Npu_Padding_nested_def err_bool_def no_error_def)
next
  assume h: "list_all fits_uint32 arr \<and> (length arr = 0 \<or> length arr = 3)"
  then have "AsArray arr dim = Some (no_error, map cast_uint32 arr @ drop (length arr) dim)"
    using assms by (intro AsArray_ok) auto
  then show "Tvm2Npu_Padding dim arr npu =
      Some (error_msg (''padding tuple size='' @ show_nat (length arr)
              @ '', padding tuple size must be {1, 2, 4}''), npu)"
    using h by (auto simp add: Tvm2Npu_Padding_def err_bool_def no_error_def)
next
  assume "4 < length arr"
  then show "Tvm2Npu_Padding dim arr npu =
      Some (error_msg (''dimensions='' @ show_nat (length arr) @ '', dimensions must be <= 4''), npu)"
    by (simp add: Tvm2Npu_Padding_def AsArray_too_long err_bool_def error_msg_def)
next
  assume "length nested \<noteq> 4"
  then show "Tvm2Npu_Padding_nested dim nested npu =
      Some (error_msg (''padding tuple size='' @ show_nat (length nested)
              @ '', padding tuple size must = 4''), npu)"
    by (simp add: Tvm2Npu_Padding_nested_def)
next
  assume "length arr \<le> 4 \<and> \<not> list_all fits_uint32 arr \<and> is_IntImm (arr ! first_unfit arr)"
  then have "AsArray arr dim =
      Some (error_msg (range_msg (arr ! first_unfit arr)),
            map cast_uint32 (take (first_unfit arr) arr) @ drop (first_unfit arr) dim)"
    using assms by (intro AsArray_range) simp_all
  then show "Tvm2Npu_Padding dim arr npu =
      Some (error_msg (range_msg (arr ! first_unfit arr)), npu)"
    by (simp add: Tvm2Npu_Padding_def err_bool_def error_msg_def)
next
  assume h: "list_all is_IntImm [hl, hh, wl, wh] \<and> \<not> list_all fits_uint32 [hl, hh, wl, wh]"
  then have "first_unfit [hl, hh, wl, wh] < length [hl, hh, wl, wh]"
    using first_unfit_props(1) by blast
  with h have "is_IntImm ([hl, hh, wl, wh] ! first_unfit [hl, hh, wl, wh])"
    unfolding list_all_length by blast
  with h have "AsArray [hl, hh, wl, wh] dim =
      Some (error_msg (range_msg ([hl, hh, wl, wh] ! first_unfit [hl, hh, wl, wh])),
            map cast_uint32 (take (first_unfit [hl, hh, wl, wh]) [hl, hh, wl, wh])
              @ drop (first_unfit [hl, hh, wl, wh]) dim)"
    using assms by (intro AsArray_range) simp_all
  then show "Tvm2Npu_Padding_nested dim [batch, [hl, hh], [wl, wh], channel] npu =
      Some (error_msg (range_msg ([hl, hh, wl, wh] ! first_unfit [hl, hh, wl, wh])), npu)"
    by (simp add: Tvm2Npu_Padding_nested_def err_bool_def error_msg_def)
qed

theorem Tvm2Npu_Padding_amended_witness:
  "Tvm2Npu_Padding [0, 0, 0, 0] [IntImm 5] (mk_Padding 7 7 7 7) =
     Some (no_error, mk_Padding 5 5 5 5)
   \<and> Tvm2Npu_Padding [0, 0, 0, 0] [IntImm 1, IntImm 2] (mk_Padding 7 7 7 7) =
     Some (no_error, mk_Padding 1 1 2 2)
   \<and> Tvm2Npu_Padding [0, 0, 0, 0] [IntImm 1, IntImm 2, IntImm 3, IntImm 4] (mk_Padding 7 7 7 7) =
     Some (no_error, mk_Padding 1 3 2 4)
   \<and> Tvm2Npu_Padding_nested [0, 0, 0, 0]
       [[IntImm 4294967296, IntImm 0], [IntImm 1, IntImm 2], [IntImm 3, IntImm 4],
        [IntImm 0, IntImm 4294967296]]
       (mk_Padding 7 7 7 7) =
     Some (no_error, mk_Padding 1 2 3 4)
   \<and> Tvm2Npu_Padding [0, 0, 0, 0] [IntImm 1, IntImm 2, IntImm 3] (mk_Padding 7 7 7 7) =
     Some (error_msg ''padding tuple size=3, padding tuple size must be {1, 2, 4}'',
           mk_Padding 7 7 7 7)
   \<and> Tvm2Npu_Padding [0, 0, 0, 0] [IntImm 1, IntImm 2, IntImm 3, IntImm 4, IntImm 5]
       (mk_Padding 7 7 7 7) =
     Some (error_msg ''dimensions=5, dimensions must be <= 4'', mk_Padding 7 7 7 7)
   \<and> Tvm2Npu_Padding_nested [0, 0, 0, 0] [[IntImm 1, IntImm 2], [IntImm 3, IntImm 4]]
       (mk_Padding 7 7 7 7) =
     Some (error_msg ''padding tuple size=2, padding tuple size must = 4'', mk_Padding 7 7 7 7)
   \<and> Tvm2Npu_Padding [0, 0, 0, 0] [IntImm 1, IntImm 4294967296] (mk_Padding 7 7 7 7) =
     Some (error_msg ''axis size=4294967296, axis size must be <= 4294967295'',
           mk_Padding 7 7 7 7)
   \<and> Tvm2Npu_Padding_nested [0, 0, 0, 0]
       [[IntImm 0, IntImm 0], [IntImm 1, IntImm 2], [IntImm 3, IntImm 4294967297], []]
       (mk_Padding 7 7 7 7) =
     Some (error_msg ''axis size=4294967297, axis size must be <= 4294967295'',
           mk_Padding 7 7 7 7)"
  using
    Tvm2Npu_Padding_amended [where dim = "[0, 0, 0, 0]" and npu = "mk_Padding 7 7 7 7"
      and p = "IntImm 5" and h = "IntImm 1" and w = "IntImm 2"
      and t = "IntImm 1" and l = "IntImm 2" and b = "IntImm 3" and r = "IntImm 4"
      and hl = "IntImm 1" and hh = "IntImm 2" and wl = "IntImm 3" and wh = "IntImm 4"
      and batch = "[IntImm 4294967296, IntImm 0]" and channel = "[IntImm 0, IntImm 4294967296]"
      and arr = "[IntImm 1, IntImm 2, IntImm 3]"
      and nested = "[[IntImm 1, IntImm 2], [IntImm 3, IntImm 4]]"]
    Tvm2Npu_Padding_amended [where dim = "[0, 0, 0, 0]" and npu = "mk_Padding 7 7 7 7"
      and arr = "[IntImm 1, IntImm 2, IntImm 3, IntImm 4, IntImm 5]" and nested = "[]"]
    Tvm2Npu_Padding_amended [where dim = "[0, 0, 0, 0]" and npu = "mk_Padding 7 7 7 7"
      and arr = "[IntImm 1, IntImm 4294967296]" and nested = "[]"
      and hl = "IntImm 1" and hh = "IntImm 2" and wl = "IntImm 3" and wh = "IntImm 4294967297"
      and batch = "[IntImm 0, IntImm 0]" and channel = "[]"]
  by (simp add: eval_simps)

subsection \<open>The split translator\<close>

text \<open>
  The shape conversion, started from \<open>{1, 1, 1, 1}\<close>, writes the slot of a dimension
  when the shape has at most four elements and the dimensions up to that one are within
  range, whatever it reports about the later ones.
\<close>

lemma Tvm2Npu_TensorShape_slot:
  assumes "length shape \<le> 4" and "list_all is_IntImm shape" and "a < length shape"
    and "\<forall>j \<le> a. fits_uint32 (shape ! j)"
  shows "\<exists>err out. Tvm2Npu_TensorShape shape [1, 1, 1, 1] = Some (err, out)
           \<and> out ! a = cast_uint32 (shape ! a)"
proof (cases "list_all fits_uint32 shape")
  case True
  have "AsArray shape [1, 1, 1, 1] =
      Some (no_error, map cast_uint32 shape @ drop (length shape) [1, 1, 1, 1])"
    using assms(1) True by (intro AsArray_ok) simp_all
  moreover have "(map cast_uint32 shape @ drop (length shape) [1, 1, 1, 1]) ! a
      = cast_uint32 (shape ! a)"
    using assms(3) by (simp add: nth_append)
  ultimately show ?thesis
    by (simp add: Tvm2Npu_TensorShape_def)
next
  case False
  note fu = first_unfit_props [OF False]
  have k: "a < first_unfit shape"
    using fu(2) assms(4) by (meson not_le_imp_less)
  have imm: "is_IntImm (shape ! first_unfit shape)"
    using assms(2) fu(1) by (simp add: list_all_length)
  have "AsArray shape [1, 1, 1, 1] =
      Some (error_msg (range_msg (shape ! first_unfit shape)),
            map cast_uint32 (take (first_unfit shape) shape) @ drop (first_unfit shape) [1, 1, 1, 1])"
    using assms(1) False imm by (intro AsArray_range) simp_all
  moreover have "(map cast_uint32 (take (first_unfit shape) shape)
        @ drop (first_unfit shape) [1, 1, 1, 1]) ! a = cast_uint32 (shape ! a)"
    using k fu(1) by (simp add: nth_append)
  ultimately show ?thesis
    by (simp add: Tvm2Npu_TensorShape_def)
qed

lemma Split_sections_loop_replicate:
  "Split_sections_loop i n sz sizes = sizes @ replicate (nat (n - int i)) sz"
proof (induction i n sz sizes rule: Split_sections_loop.induct)
  case (1 i sections sz sizes)
  show ?case
  proof (cases "int i < sections")
    case True
    then have "nat (sections - int i) = Suc (nat (sections - int (Suc i)))" by simp
    with 1 True show ?thesis
      by (subst Split_sections_loop.simps) (simp add: replicate_app_Cons_same)
  next
    case False
    then show ?thesis by (subst Split_sections_loop.simps) simp
  qed
qed

lemma is_index_value:
  assumes "is_index e"
  obtains val where "e = IntImm val" and "0 \<le> sint val" and "sint val < 2 ^ 31"
    and "sint (ucast val :: 32 word) = sint val"
proof -
  from assms obtain val where e: "e = IntImm val" and b: "0 \<le> sint val" "sint val < 2 ^ 31"
    by (cases e) (auto simp: is_index_def is_IntImm_def imm_value_def)
  have "uint (ucast val :: 32 word) = sint val mod 2 ^ 32"
    using cast_uint32_mod [of "IntImm val"] by (simp add: cast_uint32_def imm_value_def)
  with b have u: "uint (ucast val :: 32 word) = sint val" by simp
  have "sint (ucast val :: 32 word) = signed_take_bit 31 (uint (ucast val :: 32 word))"
    by (simp add: sint_uint)
  with u b have "sint (ucast val :: 32 word) = sint val"
    by (simp add: signed_take_bit_int_eq_self)
  with e b show ?thesis by (rule that)
qed

lemma Split_indices_loop_spec:
  "list_all is_index indices \<Longrightarrow> 0 \<le> sint last_index \<Longrightarrow>
   \<exists>l sizes'. Split_indices_loop indices last_index sizes = Some (l, sizes')
       \<and> 0 \<le> sint l
       \<and> sizes' @ [word_of_int (E - sint l)] =
           sizes @ map word_of_int (spec_segment_sizes (sint last_index) (map imm_value indices) E)"
proof (induction indices arbitrary: last_index sizes)
  case Nil
  then show ?case by simp
next
  case (Cons i rest)
  from Cons.prems(1) have "is_index i" and rest: "list_all is_index rest" by simp_all
  then obtain val where i: "i = IntImm val" and b: "0 \<le> sint val" "sint val < 2 ^ 31"
    and s: "sint (ucast val :: 32 word) = sint val"
    by (auto elim: is_index_value)
  have iv: "imm_value i = sint val"
    using i by (simp add: imm_value_def)
  have lb: "sint last_index < 2 ^ 31"
    using sint_lt [of last_index] by simp
  from Cons.IH [OF rest, of "ucast val" "sizes @ [word_of_int (sint val - sint last_index)]"] b s
  obtain l sizes' where
    "Split_indices_loop rest (ucast val) (sizes @ [word_of_int (sint val - sint last_index)]) =
       Some (l, sizes')"
    and "0 \<le> sint l"
    and "sizes' @ [word_of_int (E - sint l)] =
       (sizes @ [word_of_int (sint val - sint last_index)])
         @ map word_of_int (spec_segment_sizes (sint val) (map imm_value rest) E)"
    by auto
  then show ?case
    using i iv b lb Cons.prems(2) by (simp add: Let_def)
qed

lemma cpp_div_nonneg: "0 \<le> a \<Longrightarrow> 0 < b \<Longrightarrow> cpp_div a b = a div b"
  by (cases "a = 0") (simp_all add: cpp_div_def sgn_if)

lemma sint_cast_uint32:
  assumes "is_IntImm e" and "0 \<le> imm_value e" and "imm_value e < 2 ^ 31"
  shows "sint (cast_uint32 e) = imm_value e"
proof -
  from assms have "is_index e" by (simp add: is_index_def)
  then obtain val where "e = IntImm val" and "sint (ucast val :: 32 word) = sint val"
    by (rule is_index_value)
  then show ?thesis by (simp add: cast_uint32_def imm_value_def)
qed

text \<open>
  Narrowing an \<^verbatim>\<open>int64_t\<close> to 32 bits, and a difference of an \<^verbatim>\<open>int\<close> that is
  itself the narrowing of a value, both taken modulo \<open>2 ^ 32\<close>.
\<close>

lemma word_of_int_sint_ucast: "(word_of_int (sint (val :: int64)) :: 32 word) = ucast val"
proof -
  have "uint (word_of_int (sint val) :: 32 word) = sint val mod 2 ^ 32"
    by (simp only: uint_word_of_int) simp
  moreover have "uint (ucast val :: 32 word) = sint val mod 2 ^ 32"
    using cast_uint32_mod [of "IntImm val"] by (simp add: cast_uint32_def imm_value_def)
  ultimately show ?thesis
    by (simp only: word_uint_eq_iff)
qed

lemma word_of_int_diff_sint:
  "word_of_int p = (l :: 32 word) \<Longrightarrow> (word_of_int (a - sint l) :: 32 word) = word_of_int (a - p)"
proof -
  assume "word_of_int p = l"
  then have "(word_of_int (a - p) :: 32 word) = word_of_int a - l" by simp
  also have "\<dots> = word_of_int a - word_of_int (sint l)" by simp
  also have "\<dots> = word_of_int (a - sint l)" by simp
  finally show ?thesis by simp
qed

text \<open>
  Whenever the loop over the indices returns, the sizes it has pushed are the successive
  differences of the indices, modulo \<open>2 ^ 32\<close>.
\<close>

lemma Split_indices_loop_wrap:
  "Split_indices_loop indices last_index sizes = Some (l, sizes') \<Longrightarrow>
   word_of_int prev = last_index \<Longrightarrow>
   \<exists>p. word_of_int p = l
     \<and> sizes' @ [word_of_int (E - p)] =
         sizes @ map word_of_int (spec_segment_sizes prev (map imm_value indices) E)"
proof (induction indices arbitrary: last_index sizes prev)
  case Nil
  then show ?case by auto
next
  case (Cons i rest)
  from Cons.prems(1) obtain val where i: "i = IntImm val"
    by (cases i) simp_all
  from Cons.prems(1) i
  have loop: "Split_indices_loop rest (ucast val) (sizes @ [word_of_int (sint val - sint last_index)])
      = Some (l, sizes')"
    by (simp add: Let_def split: if_splits)
  have iv: "imm_value i = sint val"
    using i by (simp add: imm_value_def)
  have wv: "(word_of_int (sint val) :: 32 word) = ucast val"
    by (rule word_of_int_sint_ucast)
  from Cons.IH [OF loop wv]
  obtain p where p: "word_of_int p = l"
    and eq: "sizes' @ [word_of_int (E - p)] =
       (sizes @ [word_of_int (sint val - sint last_index)])
         @ map word_of_int (spec_segment_sizes (sint val) (map imm_value rest) E)"
    by blast
  have "(word_of_int (sint val - sint last_index) :: 32 word) = word_of_int (sint val - prev)"
    using Cons.prems(2) by (rule word_of_int_diff_sint)
  with eq have "sizes' @ [word_of_int (E - p)] =
       sizes @ map word_of_int (spec_segment_sizes prev (map imm_value (i # rest)) E)"
    using iv by simp
  with p show ?case by blast
qed

text \<open>
  C3, as stated, fails. On an input of five dimensions \<open>[1, 9, 4, 4, 2]\<close>, split along
  axis 1 whose extent is 9, the shape conversion writes nothing and the translator reads
  the 1 the shape was initialised with: the indices [3, 6] give the sizes
  \<open>[3, 3, 4294967291]\<close>, not \<open>[3, 3, 3]\<close>, and three sections give \<open>[0, 0, 0]\<close>, not
  three copies of \<open>9 div 3\<close>. The translator returns the extractor's error in both cases.
\<close>

theorem Split_five_dimensions:
  "Split example_externals UINT8_QUANTIZED
     (Call ''split''
        [Var ''x'' (TensorType [IntImm 1, IntImm 9, IntImm 4, IntImm 4, IntImm 2] dtype_uint8)]
        (SplitAttrs (Indices [IntImm 3, IntImm 6]) 1) OtherType)
     example_SplitParams =
     Some (EthosnError [''dimensions=5, dimensions must be <= 4''],
           \<lparr>input_info = mk_TensorInfo [1, 1, 1, 1] UINT8_QUANTIZED NHWC
                           \<lparr>m_ZeroPoint = 0, m_Scale = 0\<rparr>,
            split_info = \<lparr>split_m_Axis = 1, m_Sizes = [3, 3, 4294967291]\<rparr>\<rparr>)
   \<and> Split example_externals UINT8_QUANTIZED
     (Call ''split''
        [Var ''x'' (TensorType [IntImm 1, IntImm 9, IntImm 4, IntImm 4, IntImm 2] dtype_uint8)]
        (SplitAttrs (Sections 3) 1) OtherType)
     example_SplitParams =
     Some (EthosnError [''dimensions=5, dimensions must be <= 4''],
           \<lparr>input_info = mk_TensorInfo [1, 1, 1, 1] UINT8_QUANTIZED NHWC
                           \<lparr>m_ZeroPoint = 0, m_Scale = 0\<rparr>,
            split_info = \<lparr>split_m_Axis = 1, m_Sizes = [0, 0, 0]\<rparr>\<rparr>)"
proof (intro conjI)
  show "Split example_externals UINT8_QUANTIZED
     (Call ''split''
        [Var ''x'' (TensorType [IntImm 1, IntImm 9, IntImm 4, IntImm 4, IntImm 2] dtype_uint8)]
        (SplitAttrs (Indices [IntImm 3, IntImm 6]) 1) OtherType)
     example_SplitParams =
     Some (EthosnError [''dimensions=5, dimensions must be <= 4''],
           \<lparr>input_info = mk_TensorInfo [1, 1, 1, 1] UINT8_QUANTIZED NHWC
                           \<lparr>m_ZeroPoint = 0, m_Scale = 0\<rparr>,
            split_info = \<lparr>split_m_Axis = 1, m_Sizes = [3, 3, 4294967291]\<rparr>\<rparr>)"
    by (simp add: Split_def example_SplitParams_def example_externals_def dtype_uint8_def
        Array_at_def Tvm2Npu_TensorShape_def AsArray_def Tvm2Npu_DataType_def mk_TensorInfo_def
        err_add_def error_msg_def no_error_def is_scalar_def is_uint_def is_int_def
        show_simps)
next
  have three: "replicate 3 (0 :: uint32) = [0, 0, 0]"
    by (simp add: numeral_3_eq_3)
  show "Split example_externals UINT8_QUANTIZED
     (Call ''split''
        [Var ''x'' (TensorType [IntImm 1, IntImm 9, IntImm 4, IntImm 4, IntImm 2] dtype_uint8)]
        (SplitAttrs (Sections 3) 1) OtherType)
     example_SplitParams =
     Some (EthosnError [''dimensions=5, dimensions must be <= 4''],
           \<lparr>input_info = mk_TensorInfo [1, 1, 1, 1] UINT8_QUANTIZED NHWC
                           \<lparr>m_ZeroPoint = 0, m_Scale = 0\<rparr>,
            split_info = \<lparr>split_m_Axis = 1, m_Sizes = [0, 0, 0]\<rparr>\<rparr>)"
    by (simp add: Split_def example_SplitParams_def example_externals_def dtype_uint8_def
        Array_at_def Tvm2Npu_TensorShape_def AsArray_def Tvm2Npu_DataType_def mk_TensorInfo_def
        err_add_def error_msg_def no_error_def is_scalar_def is_uint_def is_int_def
        show_simps cpp_div_def Split_sections_loop_replicate three)
qed

text \<open>
  C3, amended. Let the input of the split be a tensor whose shape has at most four
  dimensions, all immediates, those up to and including the split axis not above the maximum
  of uint32, let the axis be one of its dimensions, and let \<open>E\<close> be its (non-negative)
  extent along that axis. If \<open>indices_or_sections\<close> is a single integer \<open>n\<close>, not zero
  and an \<^verbatim>\<open>int\<close>, the translator appends \<open>n\<close> copies of \<open>E div n\<close> to the segment
  sizes (nothing when \<open>n\<close> is negative). If it is a list of indices \<open>i1, ..., ik\<close>, the
  translator appends \<open>i1 - 0, i2 - i1, ..., ik - i(k-1), E - ik\<close>, each stored as a uint32,
  that is modulo \<open>2 ^ 32\<close>: it does so whenever it returns, and it returns when the indices
  and \<open>E\<close> are non-negative \<^verbatim>\<open>int\<close>s. In particular, extent 9 with indices [3, 6]
  gives the sizes [3, 3, 3].
\<close>

theorem Split_segment_sizes:
  assumes "expr = Call op (inp # args) (SplitAttrs ios axis) ty"
    and "checked_type inp = TensorType shape dtype"
    and "length shape \<le> 4" and "list_all is_IntImm shape"
    and "0 \<le> sint axis" and "nat (sint axis) < length shape"
    and "\<forall>j \<le> nat (sint axis). fits_uint32 (shape ! j)"
    and "E = imm_value (shape ! nat (sint axis))" and "0 \<le> E"
  shows "(ios = Sections n \<and> sint n \<noteq> 0 \<and> sint n < 2 ^ 31 \<longrightarrow>
            map_option (\<lambda>r. m_Sizes (split_info (snd r))) (Split ext u expr params) =
              Some (m_Sizes (split_info params)
                      @ replicate (nat (sint n)) (word_of_int (E div sint n))))
       \<and> (ios = Indices idx \<and> list_all is_index idx \<and> E < 2 ^ 31 \<longrightarrow>
            map_option (\<lambda>r. m_Sizes (split_info (snd r))) (Split ext u expr params) =
              Some (m_Sizes (split_info params)
                      @ map word_of_int (spec_segment_sizes 0 (map imm_value idx) E)))
       \<and> (ios = Indices idx \<and> Split ext u expr params = Some res \<longrightarrow>
            m_Sizes (split_info (snd res)) =
              m_Sizes (split_info params)
                @ map word_of_int (spec_segment_sizes 0 (map imm_value idx) E))
       \<and> (ios = Indices [IntImm 3, IntImm 6] \<and> E = 9 \<longrightarrow>
            map_option (\<lambda>r. m_Sizes (split_info (snd r))) (Split ext u expr params) =
              Some (m_Sizes (split_info params) @ [3, 3, 3]))"
proof -
  define extent where "extent = cast_uint32 (shape ! nat (sint axis))"
  obtain err out where shp: "Tvm2Npu_TensorShape shape [1, 1, 1, 1] = Some (err, out)"
    and ext_nth: "out ! nat (sint axis) = extent"
    using Tvm2Npu_TensorShape_slot [OF assms(3,4,6,7)] unfolding extent_def by blast
  have fit: "fits_uint32 (shape ! nat (sint axis))"
    using assms(7) by simp
  have imm: "is_IntImm (shape ! nat (sint axis))"
    using assms(4,6) by (simp add: list_all_length)
  have uext: "uint extent = E"
    using fit assms(8,9) by (simp add: extent_def cast_uint32_value)
  have ax: "sint axis < 4"
    using assms(3,5,6) by simp
  have idx_case: "map_option (\<lambda>r. m_Sizes (split_info (snd r))) (Split ext u expr params) =
              Some (m_Sizes (split_info params)
                      @ map word_of_int (spec_segment_sizes 0 (map imm_value idx) E))"
    if h: "ios = Indices idx" "list_all is_index idx" "E < 2 ^ 31" for idx
  proof -
    have sext: "sint extent = E"
      using imm assms(8,9) h(3) by (simp add: extent_def sint_cast_uint32)
    obtain l sizes' where
      loop: "Split_indices_loop idx 0 (m_Sizes (split_info params)) = Some (l, sizes')"
      and l0: "0 \<le> sint l"
      and eq: "sizes' @ [word_of_int (E - sint l)] =
         m_Sizes (split_info params) @ map word_of_int (spec_segment_sizes 0 (map imm_value idx) E)"
      using Split_indices_loop_spec [OF h(2), of 0 "m_Sizes (split_info params)" E] by auto
    have "sint l < 2 ^ 31" using sint_lt [of l] by simp
    with l0 assms(9) h(3) have nov: "\<not> (E - sint l < - (2 ^ 31) \<or> 2 ^ 31 \<le> E - sint l)"
      by simp
    show ?thesis
      using assms(1,2,5) ax shp ext_nth h(1) loop nov sext eq
      by (simp add: Split_def Array_at_def Let_def split: prod.splits)
  qed
  have ret_case: "m_Sizes (split_info (snd res)) =
              m_Sizes (split_info params)
                @ map word_of_int (spec_segment_sizes 0 (map imm_value idx) E)"
    if h: "ios = Indices idx" "Split ext u expr params = Some res"
  proof -
    from h(2) assms(1,2,5) ax shp ext_nth h(1)
    obtain l sizes' where
      loop: "Split_indices_loop idx 0 (m_Sizes (split_info params)) = Some (l, sizes')"
      and res: "m_Sizes (split_info (snd res)) = sizes' @ [word_of_int (sint extent - sint l)]"
      by (auto simp: Split_def Array_at_def Let_def bind_eq_Some_conv
          split: prod.splits if_splits)
    from Split_indices_loop_wrap [OF loop, of 0 E]
    obtain p where p: "word_of_int p = l"
      and eq: "sizes' @ [word_of_int (E - p)] =
         m_Sizes (split_info params) @ map word_of_int (spec_segment_sizes 0 (map imm_value idx) E)"
      by auto
    have "(word_of_int (sint extent - sint l) :: 32 word) = word_of_int (sint extent - p)"
      using p by (rule word_of_int_diff_sint)
    also have "\<dots> = word_of_int (sint extent) - word_of_int p" by simp
    also have "\<dots> = word_of_int (uint extent) - word_of_int p" by simp
    also have "\<dots> = word_of_int (E - p)" using uext by simp
    finally show ?thesis using res eq by simp
  qed
  show ?thesis
  proof (intro conjI impI)
    assume h: "ios = Sections n \<and> sint n \<noteq> 0 \<and> sint n < 2 ^ 31"
    have "replicate (nat (sint n)) (word_of_int (cpp_div (uint extent) (sint n)) :: 32 word)
        = replicate (nat (sint n)) (word_of_int (E div sint n))"
    proof (cases "0 < sint n")
      case True
      then show ?thesis using uext assms(9) by (simp add: cpp_div_nonneg)
    next
      case False
      then show ?thesis by simp
    qed
    then show "map_option (\<lambda>r. m_Sizes (split_info (snd r))) (Split ext u expr params) =
              Some (m_Sizes (split_info params)
                      @ replicate (nat (sint n)) (word_of_int (E div sint n)))"
      using assms(1,2,5) ax shp ext_nth h
      by (simp add: Split_def Array_at_def Let_def Split_sections_loop_replicate
          split: prod.splits)
  next
    assume "ios = Indices idx \<and> list_all is_index idx \<and> E < 2 ^ 31"
    then show "map_option (\<lambda>r. m_Sizes (split_info (snd r))) (Split ext u expr params) =
              Some (m_Sizes (split_info params)
                      @ map word_of_int (spec_segment_sizes 0 (map imm_value idx) E))"
      using idx_case by simp
  next
    assume "ios = Indices idx \<and> Split ext u expr params = Some res"
    then show "m_Sizes (split_info (snd res)) =
              m_Sizes (split_info params)
                @ map word_of_int (spec_segment_sizes 0 (map imm_value idx) E)"
      using ret_case by simp
  next
    assume h: "ios = Indices [IntImm 3, IntImm 6] \<and> E = 9"
    then show "map_option (\<lambda>r. m_Sizes (split_info (snd r))) (Split ext u expr params) =
              Some (m_Sizes (split_info params) @ [3, 3, 3])"
      using idx_case [of "[IntImm 3, IntImm 6]"]
      by (simp add: is_index_def is_IntImm_def imm_value_def)
  qed
qed

theorem Split_segment_sizes_witness:
  "map_option (\<lambda>r. m_Sizes (split_info (snd r)))
     (Split example_externals UINT8_QUANTIZED (example_split 10 (Sections 3)) example_SplitParams)
     = Some [3, 3, 3]
   \<and> map_option (\<lambda>r. m_Sizes (split_info (snd r)))
     (Split example_externals UINT8_QUANTIZED (example_split 9 (Indices [IntImm 2, IntImm 6]))
        example_SplitParams)
     = Some [2, 4, 3]
   \<and> map_option (\<lambda>r. m_Sizes (split_info (snd r)))
     (Split example_externals UINT8_QUANTIZED
        (example_split 3000000000 (Indices [IntImm 1000000000, IntImm 3000000000]))
        example_SplitParams)
     = Some [1000000000, 2000000000, 0]
   \<and> map_option (\<lambda>r. m_Sizes (split_info (snd r)))
     (Split example_externals UINT8_QUANTIZED (example_split 9 (Indices [IntImm 3, IntImm 6]))
        example_SplitParams)
     = Some [3, 3, 3]"
proof (intro conjI)
  have "map_option (\<lambda>r. m_Sizes (split_info (snd r)))
     (Split example_externals UINT8_QUANTIZED (example_split 10 (Sections 3)) example_SplitParams)
     = Some (m_Sizes (split_info example_SplitParams)
               @ replicate (nat (sint (3 :: int64))) (word_of_int (10 div sint (3 :: int64))))"
    by (rule Split_segment_sizes [where op = "''split''"
          and inp = "Var ''x'' (TensorType [IntImm 1, IntImm 10, IntImm 4, IntImm 4] dtype_uint8)"
          and args = "[]" and ios = "Sections 3" and axis = 1 and ty = OtherType
          and shape = "[IntImm 1, IntImm 10, IntImm 4, IntImm 4]" and dtype = dtype_uint8
          and E = 10 and n = 3 and idx = "[]", THEN conjunct1, THEN mp])
      (simp_all add: example_split_def fits_uint32_def uint32_max_def imm_value_def
        is_IntImm_def less_Suc_eq_le [symmetric] less_Suc_eq)
  then show "map_option (\<lambda>r. m_Sizes (split_info (snd r)))
     (Split example_externals UINT8_QUANTIZED (example_split 10 (Sections 3)) example_SplitParams)
     = Some [3, 3, 3]"
    by (simp add: example_SplitParams_def eval_nat_numeral)
next
  have "map_option (\<lambda>r. m_Sizes (split_info (snd r)))
     (Split example_externals UINT8_QUANTIZED (example_split 9 (Indices [IntImm 2, IntImm 6]))
        example_SplitParams)
     = Some (m_Sizes (split_info example_SplitParams)
               @ map word_of_int (spec_segment_sizes 0 (map imm_value [IntImm 2, IntImm 6]) 9))"
    by (rule Split_segment_sizes [where op = "''split''"
          and inp = "Var ''x'' (TensorType [IntImm 1, IntImm 9, IntImm 4, IntImm 4] dtype_uint8)"
          and args = "[]" and ios = "Indices [IntImm 2, IntImm 6]" and axis = 1 and ty = OtherType
          and shape = "[IntImm 1, IntImm 9, IntImm 4, IntImm 4]" and dtype = dtype_uint8
          and E = 9 and n = 1 and idx = "[IntImm 2, IntImm 6]",
          THEN conjunct2, THEN conjunct1, THEN mp])
      (simp_all add: example_split_def fits_uint32_def uint32_max_def imm_value_def
        is_index_def is_IntImm_def less_Suc_eq_le [symmetric] less_Suc_eq)
  then show "map_option (\<lambda>r. m_Sizes (split_info (snd r)))
     (Split example_externals UINT8_QUANTIZED (example_split 9 (Indices [IntImm 2, IntImm 6]))
        example_SplitParams)
     = Some [2, 4, 3]"
    by (simp add: example_SplitParams_def imm_value_def)
next
  define res where "res = (EthosnError [],
           \<lparr>input_info = mk_TensorInfo [1, 3000000000, 4, 4] UINT8_QUANTIZED NHWC
                           \<lparr>m_ZeroPoint = 0, m_Scale = 0\<rparr>,
            split_info = \<lparr>split_m_Axis = 1, m_Sizes = [1000000000, 2000000000, 0]\<rparr>\<rparr>)"
  have ev: "Split example_externals UINT8_QUANTIZED
        (Call ''split''
           [Var ''x'' (TensorType [IntImm 1, IntImm 3000000000, IntImm 4, IntImm 4] dtype_uint8)]
           (SplitAttrs (Indices [IntImm 1000000000, IntImm 3000000000]) 1) OtherType)
        example_SplitParams
     = Some res"
    by (simp add: Split_def res_def example_SplitParams_def example_externals_def
        dtype_uint8_def Array_at_def Tvm2Npu_TensorShape_def AsArray_def AsArray_loop.simps
        Tvm2Npu_DataType_def mk_TensorInfo_def err_add_def error_msg_def no_error_def
        is_scalar_def is_uint_def is_int_def uint32_max_def)
  have "m_Sizes (split_info (snd res))
     = m_Sizes (split_info example_SplitParams)
         @ map word_of_int
             (spec_segment_sizes 0 (map imm_value [IntImm 1000000000, IntImm 3000000000])
                3000000000)"
    by (rule Split_segment_sizes [where op = "''split''"
          and inp = "Var ''x'' (TensorType [IntImm 1, IntImm 3000000000, IntImm 4, IntImm 4]
                                  dtype_uint8)"
          and args = "[]" and ios = "Indices [IntImm 1000000000, IntImm 3000000000]"
          and axis = 1 and ty = OtherType
          and shape = "[IntImm 1, IntImm 3000000000, IntImm 4, IntImm 4]" and dtype = dtype_uint8
          and E = 3000000000 and n = 1 and idx = "[IntImm 1000000000, IntImm 3000000000]"
          and ext = example_externals and u = UINT8_QUANTIZED and params = example_SplitParams
          and res = res
          and expr = "Call ''split''
             [Var ''x'' (TensorType [IntImm 1, IntImm 3000000000, IntImm 4, IntImm 4] dtype_uint8)]
             (SplitAttrs (Indices [IntImm 1000000000, IntImm 3000000000]) 1) OtherType",
          THEN conjunct2, THEN conjunct2, THEN conjunct1, THEN mp])
      (simp_all add: ev fits_uint32_def uint32_max_def imm_value_def
        is_IntImm_def less_Suc_eq_le [symmetric] less_Suc_eq)
  then have "m_Sizes (split_info (snd res)) = [1000000000, 2000000000, 0]"
    by (simp add: example_SplitParams_def imm_value_def)
  then have "map_option (\<lambda>r. m_Sizes (split_info (snd r)))
     (Split example_externals UINT8_QUANTIZED
        (Call ''split''
           [Var ''x'' (TensorType [IntImm 1, IntImm 3000000000, IntImm 4, IntImm 4] dtype_uint8)]
           (SplitAttrs (Indices [IntImm 1000000000, IntImm 3000000000]) 1) OtherType)
        example_SplitParams)
     = Some [1000000000, 2000000000, 0]"
    by (simp add: ev)
  then show "map_option (\<lambda>r. m_Sizes (split_info (snd r)))
     (Split example_externals UINT8_QUANTIZED
        (example_split 3000000000 (Indices [IntImm 1000000000, IntImm 3000000000]))
        example_SplitParams)
     = Some [1000000000, 2000000000, 0]"
    by (simp add: example_split_def)
next
  have "map_option (\<lambda>r. m_Sizes (split_info (snd r)))
     (Split example_externals UINT8_QUANTIZED (example_split 9 (Indices [IntImm 3, IntImm 6]))
        example_SplitParams)
     = Some (m_Sizes (split_info example_SplitParams) @ [3, 3, 3])"
    by (rule Split_segment_sizes [where op = "''split''"
          and inp = "Var ''x'' (TensorType [IntImm 1, IntImm 9, IntImm 4, IntImm 4] dtype_uint8)"
          and args = "[]" and ios = "Indices [IntImm 3, IntImm 6]" and axis = 1 and ty = OtherType
          and shape = "[IntImm 1, IntImm 9, IntImm 4, IntImm 4]" and dtype = dtype_uint8
          and E = 9 and n = 1 and idx = "[]",
          THEN conjunct2, THEN conjunct2, THEN conjunct2, THEN mp])
      (simp_all add: example_split_def fits_uint32_def uint32_max_def imm_value_def
        is_IntImm_def less_Suc_eq_le [symmetric] less_Suc_eq)
  then show "map_option (\<lambda>r. m_Sizes (split_info (snd r)))
     (Split example_externals UINT8_QUANTIZED (example_split 9 (Indices [IntImm 3, IntImm 6]))
        example_SplitParams)
     = Some [3, 3, 3]"
    by (simp add: example_SplitParams_def)
qed

subsection \<open>Reasoning about what a translator returns\<close>

lemma returns_Some: "returns (Some x) P = P x"
  by (simp add: returns_def)

lemma returns_None: "returns None P"
  by (simp add: returns_def)

lemma returns_bind: "returns (m \<bind> f) P = returns m (\<lambda>x. returns (f x) P)"
  by (cases m) (simp_all add: returns_def)

lemma returns_True: "returns m (\<lambda>x. True)"
  by (simp add: returns_def split: option.splits)

lemma returns_if: "returns (if c then a else b) P = (if c then returns a P else returns b P)"
  by simp

lemma returns_case_option:
  "returns (case x of None \<Rightarrow> a | Some y \<Rightarrow> b y) P =
     (case x of None \<Rightarrow> returns a P | Some y \<Rightarrow> returns (b y) P)"
  by (cases x) simp_all

lemma returnsD: "m = Some r \<Longrightarrow> returns m P \<Longrightarrow> P r"
  by (simp add: returns_def)

lemmas returns_simps =
  returns_Some returns_None returns_bind returns_True returns_if returns_case_option
  case_prod_unfold Let_def

lemma Array_at_Cons_0: "Array_at (x # xs) 0 = Some x"
  by (simp add: Array_at_def)

lemma Tvm2Npu_DataFormat_weights:
  "Tvm2Npu_DataFormat (if d then ''HWIM'' else ''HWIO'') u = (no_error, if d then HWIM else HWIO)"
  by (simp add: Tvm2Npu_DataFormat_def)

subsection \<open>The convolution translator\<close>

lemma msgs_err_add: "msgs (err_add a b) = msgs a @ msgs b"
  by (simp add: err_add_def)

text \<open>
  C6. When the convolution translator returns, the depthwise flag is true exactly when the
  declared output-channel count is defined, structurally equals the group count, and the
  group count is not 1; and the data format of the weights descriptor is HWIM when the flag
  is true and HWIO when it is false.
\<close>

theorem QnnConv2d_depthwise:
  assumes "expr = Call rq_op (Call ba_op (Call cv_op cv_args (Conv2D conv_attr) cv_ty # ba_args)
                     ba_attrs ba_ty # rq_args) rq_attrs rq_ty"
    and "QnnConv2d ext un expr = Some (err, params)"
  shows "is_depthwise params =
           (channels conv_attr \<noteq> None
            \<and> ExprDeepEqual ext (the (channels conv_attr)) (groups conv_attr)
            \<and> groups conv_attr \<noteq> 1)
       \<and> m_DataFormat (weights_info params) = (if is_depthwise params then HWIM else HWIO)"
proof -
  have "returns (QnnConv2d ext un expr) (\<lambda>r.
          is_depthwise (snd r) =
           (channels conv_attr \<noteq> None
            \<and> ExprDeepEqual ext (the (channels conv_attr)) (groups conv_attr)
            \<and> groups conv_attr \<noteq> 1)
       \<and> m_DataFormat (weights_info (snd r)) = (if is_depthwise (snd r) then HWIM else HWIO))"
    unfolding assms(1) QnnConv2d_def
    by (cases "channels conv_attr")
      (simp_all add: returns_simps Array_at_Cons_0 Tvm2Npu_DataFormat_weights mk_TensorInfo_def
        split del: if_split)
  from returnsD [OF assms(2) this] show ?thesis by simp
qed

lemma msgs_if_err_add:
  "msgs (if c then err_add a b else a) = msgs a @ (if c then msgs b else [])"
  by (simp add: err_add_def)

lemmas msgs_simps = msgs_if_err_add msgs_err_add

text \<open>
  C1. Let the convolution translator return, and let the conversion of the convolution's
  own padding attribute leave the padding \<open>attr_padding\<close>. If a standalone pad operator
  feeds the convolution and \<open>attr_padding\<close> is not zero, the accumulated error contains
  the "both op and attr padding exist" message. If a pad operator feeds the convolution,
  the padding of the descriptor is what the conversion of its \<open>pad_width\<close> gives, and the
  error holds that conversion's messages. If no pad operator feeds the convolution, the
  padding of the descriptor is \<open>attr_padding\<close>, and the error holds the messages of the
  attribute's conversion.
\<close>

theorem QnnConv2d_padding:
  assumes "expr = Call rq_op (Call ba_op (Call cv_op (inp # cv_args) (Conv2D conv_attr) cv_ty
                     # ba_args) ba_attrs ba_ty # rq_args) rq_attrs rq_ty"
    and "QnnConv2d ext un expr = Some (err, params)"
    and "Tvm2Npu_Padding (u_dim un) (padding conv_attr) (u_padding un) =
           Some (attr_err, attr_padding)"
  shows "(is_nn_pad inp \<and> attr_padding \<noteq> mk_Padding 0 0 0 0 \<longrightarrow>
            both_padding_msg \<in> set (msgs err))
       \<and> (inp = Call ''nn.pad'' pad_args (PadAttrs pad_width) pad_ty \<longrightarrow>
            (\<exists>e. Tvm2Npu_Padding_nested (u_dim un) pad_width attr_padding =
                   Some (e, m_Padding (conv_info params))
                 \<and> set (msgs e) \<subseteq> set (msgs err)))
       \<and> (\<not> is_nn_pad inp \<longrightarrow>
            m_Padding (conv_info params) = attr_padding
            \<and> set (msgs attr_err) \<subseteq> set (msgs err))"
proof -
  have both: "both_padding_msg \<in> set (msgs err)"
    if h: "is_nn_pad inp \<and> attr_padding \<noteq> mk_Padding 0 0 0 0"
  proof -
  from h obtain pad_args' pad_attrs' pad_ty' where
    inp: "inp = Call ''nn.pad'' pad_args' pad_attrs' pad_ty'"
    by (cases inp) (auto simp: is_nn_pad_def)
  have "returns (QnnConv2d ext un expr) (\<lambda>r. both_padding_msg \<in> set (msgs (fst r)))"
    unfolding assms(1) QnnConv2d_def inp using assms(3) h
    by (simp add: returns_simps Array_at_Cons_0 msgs_simps error_msg_def
        split del: if_split)
  from returnsD [OF assms(2) this] show "both_padding_msg \<in> set (msgs err)" by simp
  qed
  have from_op: "\<exists>e. Tvm2Npu_Padding_nested (u_dim un) pad_width attr_padding =
               Some (e, m_Padding (conv_info params))
             \<and> set (msgs e) \<subseteq> set (msgs err)"
    if inp: "inp = Call ''nn.pad'' pad_args (PadAttrs pad_width) pad_ty"
  proof (cases "Tvm2Npu_Padding_nested (u_dim un) pad_width attr_padding")
    case None
    have "returns (QnnConv2d ext un expr) (\<lambda>r. False)"
      unfolding assms(1) QnnConv2d_def inp using assms(3) None
      by (simp add: returns_simps Array_at_Cons_0 split del: if_split)
    from returnsD [OF assms(2) this] show ?thesis by simp
  next
    case (Some res)
    obtain e p where res: "res = (e, p)" by (cases res)
    have "returns (QnnConv2d ext un expr)
            (\<lambda>r. m_Padding (conv_info (snd r)) = p
                  \<and> (\<forall>m \<in> set (msgs e). m \<in> set (msgs (fst r))))"
      unfolding assms(1) QnnConv2d_def inp using assms(3) Some res
      by (simp add: returns_simps Array_at_Cons_0 msgs_simps split del: if_split)
    from returnsD [OF assms(2) this] Some res show ?thesis by auto
  qed
  have from_attr: "m_Padding (conv_info params) = attr_padding
      \<and> set (msgs attr_err) \<subseteq> set (msgs err)"
    if h: "\<not> is_nn_pad inp"
  proof -
  from h have pad: "(case inp of
                  Call op args attrs ty \<Rightarrow> if op = ''nn.pad'' then Some (op, args, attrs) else None
                | _ \<Rightarrow> None) = None"
    by (cases inp) (simp_all add: is_nn_pad_def)
  have "returns (QnnConv2d ext un expr)
          (\<lambda>r. m_Padding (conv_info (snd r)) = attr_padding
                \<and> (\<forall>m \<in> set (msgs attr_err). m \<in> set (msgs (fst r))))"
    unfolding assms(1) QnnConv2d_def using assms(3)
    by (simp add: returns_simps Array_at_Cons_0 msgs_simps pad split del: if_split)
  from returnsD [OF assms(2) this] show ?thesis
    by auto
  qed
  from both from_op from_attr show ?thesis by blast
qed

subsection \<open>The translators on the examples\<close>

lemmas example_simps =
  example_externals_def example_locals_def example_scalar_def example_input_def example_pad_def
  example_conv_def example_attrs_def dtype_uint8_def dtype_int32_def

lemmas translator_simps =
  Array_at_def AsConstant_def Tvm2Npu_QuantizationInfo_def Tvm2Npu_Padding_def
  Tvm2Npu_Padding_nested_def Tvm2Npu_Stride_def Tvm2Npu_TensorShape_def Tvm2Npu_DataType_def
  Tvm2Npu_DataFormat_def AsArray_def AsArray_loop.simps mk_TensorInfo_def mk_Padding_def
  mk_Stride_def err_add_def err_bool_def no_error_def error_msg_def is_scalar_def is_uint_def
  is_int_def uint32_max_def

lemma example_conv_both:
  "QnnConv2d example_externals example_locals
     (example_conv example_pad (example_attrs [IntImm 1, IntImm 1] 1 (Some (IntImm 8)))) =
   Some (EthosnError [both_padding_msg], example_params (mk_Padding 1 2 3 4) False)"
  by (simp add: QnnConv2d_def example_simps translator_simps example_params_def)

lemma example_conv_op_padding:
  "QnnConv2d example_externals example_locals
     (example_conv example_pad (example_attrs [IntImm 0, IntImm 0] 1 (Some (IntImm 8)))) =
   Some (EthosnError [], example_params (mk_Padding 1 2 3 4) False)"
  by (simp add: QnnConv2d_def example_simps translator_simps example_params_def)

lemma example_conv_attr_padding:
  "QnnConv2d example_externals example_locals
     (example_conv example_input (example_attrs [IntImm 1, IntImm 2] 4 (Some (IntImm 4)))) =
   Some (EthosnError [], example_params (mk_Padding 1 1 2 2) True)"
  by (simp add: QnnConv2d_def example_simps translator_simps example_params_def)

lemma example_conv_shape:
  "example_conv data a =
     Call ''qnn.requantize''
       (Call ''nn.bias_add''
          (Call ''qnn.conv2d''
             (data #
              [Constant [0] (TensorType [IntImm 3, IntImm 3, IntImm 4, IntImm 8] dtype_uint8),
               example_scalar 10, example_scalar 0, example_scalar 1, example_scalar 2])
             (Conv2D a) OtherType #
           [Constant [0] (TensorType [IntImm 8] dtype_int32)])
          OtherAttrs OtherType #
        [example_scalar 3, example_scalar 0, example_scalar 4, example_scalar 5])
       OtherAttrs OtherType"
  by (simp add: example_conv_def)

theorem QnnConv2d_depthwise_witness:
  "(\<exists>err params.
      QnnConv2d example_externals example_locals
        (example_conv example_input (example_attrs [IntImm 1, IntImm 2] 4 (Some (IntImm 4)))) =
        Some (err, params)
      \<and> is_depthwise params \<and> m_DataFormat (weights_info params) = HWIM)
   \<and> (\<exists>err params.
      QnnConv2d example_externals example_locals
        (example_conv example_pad (example_attrs [IntImm 0, IntImm 0] 1 (Some (IntImm 8)))) =
        Some (err, params)
      \<and> \<not> is_depthwise params \<and> m_DataFormat (weights_info params) = HWIO)"
proof (intro conjI exI)
  note dw = QnnConv2d_depthwise [OF example_conv_shape example_conv_attr_padding]
  show "QnnConv2d example_externals example_locals
        (example_conv example_input (example_attrs [IntImm 1, IntImm 2] 4 (Some (IntImm 4)))) =
        Some (EthosnError [], example_params (mk_Padding 1 1 2 2) True)"
    by (rule example_conv_attr_padding)
  from dw show d: "is_depthwise (example_params (mk_Padding 1 1 2 2) True)"
    by (simp add: example_attrs_def example_externals_def)
  from dw d show "m_DataFormat (weights_info (example_params (mk_Padding 1 1 2 2) True)) = HWIM"
    by simp
next
  note nd = QnnConv2d_depthwise [OF example_conv_shape example_conv_op_padding]
  show "QnnConv2d example_externals example_locals
        (example_conv example_pad (example_attrs [IntImm 0, IntImm 0] 1 (Some (IntImm 8)))) =
        Some (EthosnError [], example_params (mk_Padding 1 2 3 4) False)"
    by (rule example_conv_op_padding)
  from nd show d: "\<not> is_depthwise (example_params (mk_Padding 1 2 3 4) False)"
    by (simp add: example_attrs_def example_externals_def)
  from nd d show "m_DataFormat (weights_info (example_params (mk_Padding 1 2 3 4) False)) = HWIO"
    by simp
qed

lemma example_attr_conversion:
  "Tvm2Npu_Padding (u_dim example_locals) (padding (example_attrs [IntImm a, IntImm b] g c))
     (u_padding example_locals) =
   (if sint a \<le> uint32_max \<and> sint b \<le> uint32_max
    then Some (no_error, mk_Padding (ucast a) (ucast a) (ucast b) (ucast b))
    else Some (error_msg (range_msg (if sint a \<le> uint32_max then IntImm b else IntImm a)),
               mk_Padding 0 0 0 0))"
  by (simp add: example_locals_def example_attrs_def Tvm2Npu_Padding_def AsArray_def
      AsArray_loop.simps err_bool_def no_error_def error_msg_def range_msg_def imm_value_def)

theorem QnnConv2d_padding_witness:
  "(\<exists>err params.
      QnnConv2d example_externals example_locals
        (example_conv example_pad (example_attrs [IntImm 1, IntImm 1] 1 (Some (IntImm 8)))) =
        Some (err, params)
      \<and> both_padding_msg \<in> set (msgs err))
   \<and> (\<exists>err params.
      QnnConv2d example_externals example_locals
        (example_conv example_pad (example_attrs [IntImm 0, IntImm 0] 1 (Some (IntImm 8)))) =
        Some (err, params)
      \<and> m_Padding (conv_info params) = mk_Padding 1 2 3 4)
   \<and> (\<exists>err params.
      QnnConv2d example_externals example_locals
        (example_conv example_input (example_attrs [IntImm 1, IntImm 2] 4 (Some (IntImm 4)))) =
        Some (err, params)
      \<and> m_Padding (conv_info params) = mk_Padding 1 1 2 2)"
proof (intro conjI exI)
  have conv: "Tvm2Npu_Padding (u_dim example_locals)
       (padding (example_attrs [IntImm 1, IntImm 1] 1 (Some (IntImm 8))))
       (u_padding example_locals) = Some (no_error, mk_Padding 1 1 1 1)"
    by (simp add: example_attr_conversion uint32_max_def)
  show "QnnConv2d example_externals example_locals
        (example_conv example_pad (example_attrs [IntImm 1, IntImm 1] 1 (Some (IntImm 8)))) =
        Some (EthosnError [both_padding_msg], example_params (mk_Padding 1 2 3 4) False)"
    by (rule example_conv_both)
  from QnnConv2d_padding [OF example_conv_shape example_conv_both conv]
  show "both_padding_msg \<in> set (msgs (EthosnError [both_padding_msg]))"
    by (simp add: is_nn_pad_def example_pad_def mk_Padding_def)
next
  have conv: "Tvm2Npu_Padding (u_dim example_locals)
       (padding (example_attrs [IntImm 0, IntImm 0] 1 (Some (IntImm 8))))
       (u_padding example_locals) = Some (no_error, mk_Padding 0 0 0 0)"
    by (simp add: example_attr_conversion uint32_max_def)
  show "QnnConv2d example_externals example_locals
        (example_conv example_pad (example_attrs [IntImm 0, IntImm 0] 1 (Some (IntImm 8)))) =
        Some (EthosnError [], example_params (mk_Padding 1 2 3 4) False)"
    by (rule example_conv_op_padding)
  from QnnConv2d_padding [OF example_conv_shape example_conv_op_padding conv,
      of "[example_input]"
         "[[IntImm 0, IntImm 0], [IntImm 1, IntImm 2], [IntImm 3, IntImm 4], [IntImm 0, IntImm 0]]"
         "TensorType [IntImm 1, IntImm 11, IntImm 15, IntImm 4] dtype_uint8"]
  show "m_Padding (conv_info (example_params (mk_Padding 1 2 3 4) False)) = mk_Padding 1 2 3 4"
    by (simp add: example_pad_def example_locals_def translator_simps)
next
  have conv: "Tvm2Npu_Padding (u_dim example_locals)
       (padding (example_attrs [IntImm 1, IntImm 2] 4 (Some (IntImm 4))))
       (u_padding example_locals) = Some (no_error, mk_Padding 1 1 2 2)"
    by (simp add: example_attr_conversion uint32_max_def)
  show "QnnConv2d example_externals example_locals
        (example_conv example_input (example_attrs [IntImm 1, IntImm 2] 4 (Some (IntImm 4)))) =
        Some (EthosnError [], example_params (mk_Padding 1 1 2 2) True)"
    by (rule example_conv_attr_padding)
  from QnnConv2d_padding [OF example_conv_shape example_conv_attr_padding conv]
  show "m_Padding (conv_info (example_params (mk_Padding 1 1 2 2) True)) = mk_Padding 1 1 2 2"
    by (simp add: is_nn_pad_def example_input_def)
qed

subsection \<open>The capability query bindings\<close>

lemma QnnConv2d_Some_Call:
  assumes "QnnConv2d ext un call = Some r"
  shows "Downcast_Call call \<noteq> None"
proof
  assume "Downcast_Call call = None"
  then have "QnnConv2d ext un call = None"
    unfolding QnnConv2d_def by (simp only: Option.bind.simps)
  with assms show False by simp
qed

lemma Concatenate_Some_Call:
  assumes "Concatenate ext un call params = Some r"
  shows "Downcast_Call call \<noteq> None"
proof
  assume "Downcast_Call call = None"
  then have "Concatenate ext un call params = None"
    unfolding Concatenate_def by (simp only: Option.bind.simps)
  with assms show False by simp
qed

lemma Split_Some_Call:
  assumes "Split ext u call params = Some r"
  shows "Downcast_Call call \<noteq> None"
proof
  assume "Downcast_Call call = None"
  then have "Split ext u call params = None"
    unfolding Split_def by (simp only: Option.bind.simps)
  with assms show False by simp
qed

text \<open>
  C2. For each of the three bindings, when its translator returns the error \<open>err\<close> and the
  parameters \<open>params\<close>: if \<open>err\<close> is non-empty the binding returns false and makes no
  capability query; if \<open>err\<close> is empty the binding makes exactly one capability query, on
  the translated descriptors, and returns its verdict.
\<close>

theorem support_short_circuit:
  "(QnnConv2d ext un call = Some (err, params) \<longrightarrow>
      support_conv2d ext sl un call =
        Some (if err_bool err then (False, [])
              else if is_depthwise params then
                (IsDepthwiseConvolutionSupported sl (bias_info params) (weights_info params)
                   (conv_info params) (activation_info params),
                 [DepthwiseConvolutionQuery (bias_info params) (weights_info params)
                   (conv_info params) (activation_info params)])
              else
                (IsConvolutionSupported sl (bias_info params) (weights_info params)
                   (conv_info params) (activation_info params),
                 [ConvolutionQuery (bias_info params) (weights_info params)
                   (conv_info params) (activation_info params)])))
   \<and> (Concatenate ext cun call cparams0 = Some (cerr, cparams) \<longrightarrow>
      support_concatenate ext sl cun cparams0 call =
        Some (if err_bool cerr then (False, [])
              else (IsConcatenationSupported sl (input_infos cparams) (concat_info cparams),
                    [ConcatenationQuery (input_infos cparams) (concat_info cparams)])))
   \<and> (Split ext u call sparams0 = Some (serr, sparams) \<longrightarrow>
      support_split ext sl u sparams0 call =
        Some (if err_bool serr then (False, [])
              else (IsSplitSupported sl (input_info sparams) (split_info sparams),
                    [SplitQuery (input_info sparams) (split_info sparams)])))"
proof (intro conjI impI)
  assume h: "QnnConv2d ext un call = Some (err, params)"
  from QnnConv2d_Some_Call [OF h] obtain c where "Downcast_Call call = Some c"
    by (cases "Downcast_Call call") simp_all
  with h show "support_conv2d ext sl un call =
        Some (if err_bool err then (False, [])
              else if is_depthwise params then
                (IsDepthwiseConvolutionSupported sl (bias_info params) (weights_info params)
                   (conv_info params) (activation_info params),
                 [DepthwiseConvolutionQuery (bias_info params) (weights_info params)
                   (conv_info params) (activation_info params)])
              else
                (IsConvolutionSupported sl (bias_info params) (weights_info params)
                   (conv_info params) (activation_info params),
                 [ConvolutionQuery (bias_info params) (weights_info params)
                   (conv_info params) (activation_info params)]))"
    by (simp add: support_conv2d_def)
next
  assume h: "Concatenate ext cun call cparams0 = Some (cerr, cparams)"
  from Concatenate_Some_Call [OF h] obtain c where "Downcast_Call call = Some c"
    by (cases "Downcast_Call call") simp_all
  with h show "support_concatenate ext sl cun cparams0 call =
        Some (if err_bool cerr then (False, [])
              else (IsConcatenationSupported sl (input_infos cparams) (concat_info cparams),
                    [ConcatenationQuery (input_infos cparams) (concat_info cparams)]))"
    by (simp add: support_concatenate_def)
next
  assume h: "Split ext u call sparams0 = Some (serr, sparams)"
  from Split_Some_Call [OF h] obtain c where "Downcast_Call call = Some c"
    by (cases "Downcast_Call call") simp_all
  with h show "support_split ext sl u sparams0 call =
        Some (if err_bool serr then (False, [])
              else (IsSplitSupported sl (input_info sparams) (split_info sparams),
                    [SplitQuery (input_info sparams) (split_info sparams)]))"
    by (simp add: support_split_def)
qed

text \<open>
  C10. When the convolution translator returns parameters whose depthwise flag is true, the
  conv2d binding consults no oracle but \<^verbatim>\<open>IsDepthwiseConvolutionSupported\<close>: its
  verdict is "no error and the depthwise oracle accepts", its record of queries holds that
  one query when the error is empty and nothing otherwise, and never a query to
  \<^verbatim>\<open>IsConvolutionSupported\<close>. When the flag is false the same holds with the two
  oracles exchanged.
\<close>

theorem support_conv2d_dispatch:
  assumes "QnnConv2d ext un call = Some (err, params)"
  shows "(is_depthwise params \<longrightarrow>
            (\<exists>trace.
               support_conv2d ext sl un call =
                 Some (\<not> err_bool err
                       \<and> IsDepthwiseConvolutionSupported sl (bias_info params)
                           (weights_info params) (conv_info params) (activation_info params),
                       trace)
               \<and> trace = (if err_bool err then []
                           else [DepthwiseConvolutionQuery (bias_info params)
                                   (weights_info params) (conv_info params)
                                   (activation_info params)])
               \<and> \<not> list_ex is_ConvolutionQuery trace))
       \<and> (\<not> is_depthwise params \<longrightarrow>
            (\<exists>trace.
               support_conv2d ext sl un call =
                 Some (\<not> err_bool err
                       \<and> IsConvolutionSupported sl (bias_info params)
                           (weights_info params) (conv_info params) (activation_info params),
                       trace)
               \<and> trace = (if err_bool err then []
                           else [ConvolutionQuery (bias_info params)
                                   (weights_info params) (conv_info params)
                                   (activation_info params)])
               \<and> \<not> list_ex is_DepthwiseConvolutionQuery trace))"
proof -
  from QnnConv2d_Some_Call [OF assms] obtain c where "Downcast_Call call = Some c"
    by (cases "Downcast_Call call") simp_all
  with assms show ?thesis
    by (simp add: support_conv2d_def is_ConvolutionQuery_def is_DepthwiseConvolutionQuery_def)
qed

lemma example_concat_eval:
  "Concatenate example_externals example_concat_locals example_concat example_ConcatenateParams =
     Some (EthosnError [], example_concat_result)"
  by (simp add: Concatenate_def example_concat_def example_concat_locals_def
      example_ConcatenateParams_def example_concat_result_def example_simps translator_simps)

lemma example_split_eval:
  "Split example_externals UINT8_QUANTIZED (example_split 9 (Indices [IntImm 3, IntImm 6]))
     example_SplitParams =
     Some (EthosnError [], example_split_result)"
  by (simp add: Split_def example_split_def example_SplitParams_def example_split_result_def
      example_simps translator_simps)

theorem support_short_circuit_witness:
  "support_conv2d example_externals example_queries example_locals
     (example_conv example_pad (example_attrs [IntImm 1, IntImm 1] 1 (Some (IntImm 8)))) =
     Some (False, [])
   \<and> support_conv2d example_externals example_queries example_locals
     (example_conv example_input (example_attrs [IntImm 1, IntImm 2] 4 (Some (IntImm 4)))) =
     Some (True,
       [DepthwiseConvolutionQuery
          (bias_info (example_params (mk_Padding 1 1 2 2) True))
          (weights_info (example_params (mk_Padding 1 1 2 2) True))
          (conv_info (example_params (mk_Padding 1 1 2 2) True))
          (activation_info (example_params (mk_Padding 1 1 2 2) True))])
   \<and> support_concatenate example_externals example_queries example_concat_locals
       example_ConcatenateParams example_concat =
     Some (True,
       [ConcatenationQuery (input_infos example_concat_result)
          (concat_info example_concat_result)])
   \<and> support_split example_externals example_queries UINT8_QUANTIZED example_SplitParams
       (example_split 9 (Indices [IntImm 3, IntImm 6])) =
     Some (True,
       [SplitQuery (input_info example_split_result) (split_info example_split_result)])"
proof (intro conjI)
  note a = support_short_circuit [where sl = example_queries, THEN conjunct1, THEN mp,
      OF example_conv_both]
  then show "support_conv2d example_externals example_queries example_locals
     (example_conv example_pad (example_attrs [IntImm 1, IntImm 1] 1 (Some (IntImm 8)))) =
     Some (False, [])"
    by (simp add: err_bool_def)
next
  note a = support_short_circuit [where sl = example_queries, THEN conjunct1, THEN mp,
      OF example_conv_attr_padding]
  then show "support_conv2d example_externals example_queries example_locals
     (example_conv example_input (example_attrs [IntImm 1, IntImm 2] 4 (Some (IntImm 4)))) =
     Some (True,
       [DepthwiseConvolutionQuery
          (bias_info (example_params (mk_Padding 1 1 2 2) True))
          (weights_info (example_params (mk_Padding 1 1 2 2) True))
          (conv_info (example_params (mk_Padding 1 1 2 2) True))
          (activation_info (example_params (mk_Padding 1 1 2 2) True))])"
    by (simp add: err_bool_def example_queries_def example_params_def mk_TensorInfo_def)
next
  note a = support_short_circuit [where sl = example_queries, THEN conjunct2, THEN conjunct1,
      THEN mp, OF example_concat_eval]
  then show "support_concatenate example_externals example_queries example_concat_locals
       example_ConcatenateParams example_concat =
     Some (True,
       [ConcatenationQuery (input_infos example_concat_result)
          (concat_info example_concat_result)])"
    by (simp add: err_bool_def example_queries_def example_concat_result_def)
next
  note a = support_short_circuit [where sl = example_queries, THEN conjunct2, THEN conjunct2,
      THEN mp, OF example_split_eval]
  then show "support_split example_externals example_queries UINT8_QUANTIZED example_SplitParams
       (example_split 9 (Indices [IntImm 3, IntImm 6])) =
     Some (True,
       [SplitQuery (input_info example_split_result) (split_info example_split_result)])"
    by (simp add: err_bool_def example_queries_def example_split_result_def)
qed

theorem support_conv2d_dispatch_witness:
  "support_conv2d example_externals example_queries example_locals
     (example_conv example_input (example_attrs [IntImm 1, IntImm 2] 4 (Some (IntImm 4)))) =
     Some (True,
       [DepthwiseConvolutionQuery
          (bias_info (example_params (mk_Padding 1 1 2 2) True))
          (weights_info (example_params (mk_Padding 1 1 2 2) True))
          (conv_info (example_params (mk_Padding 1 1 2 2) True))
          (activation_info (example_params (mk_Padding 1 1 2 2) True))])
   \<and> support_conv2d example_externals example_queries example_locals
     (example_conv example_pad (example_attrs [IntImm 0, IntImm 0] 1 (Some (IntImm 8)))) =
     Some (True,
       [ConvolutionQuery
          (bias_info (example_params (mk_Padding 1 2 3 4) False))
          (weights_info (example_params (mk_Padding 1 2 3 4) False))
          (conv_info (example_params (mk_Padding 1 2 3 4) False))
          (activation_info (example_params (mk_Padding 1 2 3 4) False))])"
proof (intro conjI)
  from support_conv2d_dispatch [OF example_conv_attr_padding, where sl = example_queries]
  show "support_conv2d example_externals example_queries example_locals
     (example_conv example_input (example_attrs [IntImm 1, IntImm 2] 4 (Some (IntImm 4)))) =
     Some (True,
       [DepthwiseConvolutionQuery
          (bias_info (example_params (mk_Padding 1 1 2 2) True))
          (weights_info (example_params (mk_Padding 1 1 2 2) True))
          (conv_info (example_params (mk_Padding 1 1 2 2) True))
          (activation_info (example_params (mk_Padding 1 1 2 2) True))])"
    by (simp add: err_bool_def example_queries_def example_params_def mk_TensorInfo_def)
next
  from support_conv2d_dispatch [OF example_conv_op_padding, where sl = example_queries]
  show "support_conv2d example_externals example_queries example_locals
     (example_conv example_pad (example_attrs [IntImm 0, IntImm 0] 1 (Some (IntImm 8)))) =
     Some (True,
       [ConvolutionQuery
          (bias_info (example_params (mk_Padding 1 2 3 4) False))
          (weights_info (example_params (mk_Padding 1 2 3 4) False))
          (conv_info (example_params (mk_Padding 1 2 3 4) False))
          (activation_info (example_params (mk_Padding 1 2 3 4) False))])"
    by (simp add: err_bool_def example_queries_def example_params_def mk_TensorInfo_def)
qed

end
